theory Spec2Isabelle
  imports Complex_Main
begin

section \<open>Python values, errors and names\<close>

text \<open>
  The embedding follows \<^verbatim>\<open>footprint.py\<close>. Lengths and coordinates are Python numbers; they
  are modelled as exact reals (the rounding of binary floating point is not modelled).
  A numeric slot holds a number or Python's \<^verbatim>\<open>None\<close>. An instance attribute that was never
  assigned is \<open>None\<close> of the option type, so that reading it raises \<^verbatim>\<open>AttributeError\<close>,
  while reading an attribute that holds \<^verbatim>\<open>None\<close> succeeds and the arithmetic on it raises
  \<^verbatim>\<open>TypeError\<close>. Every exception of the source is a value \<open>Inl e\<close>. Where the versions of
  the language differ (ordering \<^verbatim>\<open>None\<close>, ties of \<^verbatim>\<open>round\<close>) the model follows Python 3.
\<close>

datatype pyerr = AttributeError | TypeError | NameError | KeyError | IndexError | ZeroDivisionError

datatype pynum = PyNone | Num real

text \<open>The \<^verbatim>\<open>number\<close> of a shape: an integer, or a string (the default is the empty string).\<close>

datatype pyid = IdInt int | IdStr string

fun andthen :: "pyerr + 'a \<Rightarrow> ('a \<Rightarrow> pyerr + 'b) \<Rightarrow> pyerr + 'b" where
  "andthen (Inl e) f = Inl e"
| "andthen (Inr v) f = f v"

fun getattr :: "'a option \<Rightarrow> pyerr + 'a" where
  "getattr None = Inl AttributeError"
| "getattr (Some v) = Inr v"

fun py_add :: "pynum \<Rightarrow> pynum \<Rightarrow> pyerr + pynum" where
  "py_add (Num a) (Num b) = Inr (Num (a + b))"
| "py_add _ _ = Inl TypeError"

fun py_sub :: "pynum \<Rightarrow> pynum \<Rightarrow> pyerr + pynum" where
  "py_sub (Num a) (Num b) = Inr (Num (a - b))"
| "py_sub _ _ = Inl TypeError"

fun py_mul :: "pynum \<Rightarrow> pynum \<Rightarrow> pyerr + pynum" where
  "py_mul (Num a) (Num b) = Inr (Num (a * b))"
| "py_mul _ _ = Inl TypeError"

fun py_truediv :: "pynum \<Rightarrow> pynum \<Rightarrow> pyerr + pynum" where
  "py_truediv (Num a) (Num b) = (if b = 0 then Inl ZeroDivisionError else Inr (Num (a / b)))"
| "py_truediv _ _ = Inl TypeError"

text \<open>The comparison \<^verbatim>\<open>a > b\<close>; ordering \<^verbatim>\<open>None\<close> against a number raises.\<close>

fun py_gt :: "pynum \<Rightarrow> pynum \<Rightarrow> pyerr + bool" where
  "py_gt (Num a) (Num b) = Inr (b < a)"
| "py_gt _ _ = Inl TypeError"

text \<open>\<^verbatim>\<open>number += 1\<close>: defined on an integer, a \<^verbatim>\<open>TypeError\<close> on a string.\<close>

fun id_incr :: "pyid \<Rightarrow> pyerr + pyid" where
  "id_incr (IdInt n) = Inr (IdInt (n + 1))"
| "id_incr (IdStr s) = Inl TypeError"

text \<open>\<^verbatim>\<open>between(a, b, t=0.5)\<close> returns \<^verbatim>\<open>a + (b-a)*t\<close>.\<close>

definition between :: "pynum \<Rightarrow> pynum \<Rightarrow> pynum \<Rightarrow> pyerr + pynum" where
  "between a b t = andthen (py_sub b a) (\<lambda>d. andthen (py_mul d t) (\<lambda>m. py_add a m))"

text \<open>The built-in \<^verbatim>\<open>round\<close> with one argument: to the nearest integer, a tie to the even one.\<close>

definition py_round :: "real \<Rightarrow> int" where
  "py_round v =
     (let f = \<lfloor>v\<rfloor>; d = v - of_int f
      in if d < 1 / 2 then f else if 1 / 2 < d then f + 1 else if even f then f else f + 1)"

text \<open>The module-level helper \<^verbatim>\<open>__mil_to_unit(mil)\<close>: \<^verbatim>\<open>round(mil * 100)\<close>.\<close>

definition mil_to_unit :: "pynum \<Rightarrow> pyerr + int" where
  "mil_to_unit mil = andthen (py_mul mil (Num 100)) (\<lambda>v. case v of Num r \<Rightarrow> Inr (py_round r) | PyNone \<Rightarrow> Inl TypeError)"

subsection \<open>Name resolution inside a class body\<close>

text \<open>
  An identifier that occurs textually inside a class definition, begins with two underscores
  and does not end with two underscores is a private name of that class: the compiler
  rewrites it to \<^verbatim>\<open>_Class__name\<close> in every syntactic position, also where it is meant
  to refer to a module-level function. \<open>mangle\<close> is that rewriting; a name is then looked
  up in the module's global namespace and a missing name raises \<^verbatim>\<open>NameError\<close>.
\<close>

definition mangle :: "string \<Rightarrow> string \<Rightarrow> string" where
  "mangle cls ident =
     (if take 2 ident = ''__'' \<and> drop (length ident - 2) ident \<noteq> ''__''
      then ''_'' @ dropWhile (\<lambda>c. c = CHR ''_'') cls @ ident
      else ident)"

text \<open>A binding of the global namespace: a callable on numbers, an object with a
  \<^verbatim>\<open>name\<close> attribute, or anything else (a module, a class, a constant).\<close>

datatype gval = Func "pynum \<Rightarrow> pyerr + int" | Obj string | Other

type_synonym globals = "string \<Rightarrow> gval option"

text \<open>The names that \<^verbatim>\<open>footprint.py\<close> binds at module level.\<close>

definition footprint_globals :: globals where
  "footprint_globals n =
     (if n = ''__mil_to_unit'' then Some (Func mil_to_unit)
      else if n \<in> set [''sys'', ''os'', ''__author__'', ''__version__'', ''mm'', ''between'',
                        ''Shape'', ''Pad'', ''Pin'', ''SilkLine'', ''SilkPolyline'', ''SilkArc'',
                        ''Footprint'']
      then Some Other
      else None)"

text \<open>
  The call \<^verbatim>\<open>ident(arg)\<close> written inside class \<open>cls\<close>: the callee's name is resolved first,
  then the argument expression is evaluated, then the call is made.
\<close>

definition call_global :: "globals \<Rightarrow> string \<Rightarrow> string \<Rightarrow> pyerr + pynum \<Rightarrow> pyerr + int" where
  "call_global G cls ident arg =
     (case G (mangle cls ident) of
        None \<Rightarrow> Inl NameError
      | Some (Func f) \<Rightarrow> andthen arg f
      | Some _ \<Rightarrow> andthen arg (\<lambda>_. Inl TypeError))"

text \<open>The attribute read \<^verbatim>\<open>ident.name\<close> on a global name written inside class \<open>cls\<close>.\<close>

definition global_name_attr :: "globals \<Rightarrow> string \<Rightarrow> string \<Rightarrow> pyerr + string" where
  "global_name_attr G cls ident =
     (case G (mangle cls ident) of
        None \<Rightarrow> Inl NameError
      | Some (Obj n) \<Rightarrow> Inr n
      | Some _ \<Rightarrow> Inl AttributeError)"

section \<open>Keyword arguments\<close>

text \<open>
  The keyword dictionary of the constructors and of the \<^verbatim>\<open>add_*\<close> operations, one field per
  key the source reads; \<open>None\<close> is a key that was not passed (a key passed with the value
  \<^verbatim>\<open>None\<close> is not modelled). The one keyword that holds an object, \<^verbatim>\<open>base\<close>, is a separate
  argument of the modelled functions. \<^verbatim>\<open>dx\<close> and \<^verbatim>\<open>dy\<close> are a scalar or a tuple.
\<close>

datatype step = Scalar real | Tuple "real list"

record kwargs =
  kw_left :: "real option"
  kw_width :: "real option"
  kw_top :: "real option"
  kw_height :: "real option"
  kw_number :: "pyid option"
  kw_name :: "string option"
  kw_round :: "bool option"
  kw_right :: "real option"
  kw_x :: "real option"
  kw_bottom :: "real option"
  kw_y :: "real option"
  kw_hole :: "real option"
  kw_diameter :: "real option"
  kw_dx :: "step option"
  kw_dy :: "step option"

definition no_kwargs :: kwargs where
  "no_kwargs = \<lparr>kw_left = None, kw_width = None, kw_top = None, kw_height = None,
     kw_number = None, kw_name = None, kw_round = None, kw_right = None, kw_x = None,
     kw_bottom = None, kw_y = None, kw_hole = None, kw_diameter = None,
     kw_dx = None, kw_dy = None\<rparr>"

text \<open>\<^verbatim>\<open>value = kwargs.get(key); if value is not None: setattr(self, key, value)\<close>.\<close>

fun set_if_given :: "'v option \<Rightarrow> ('s \<Rightarrow> 'v \<Rightarrow> pyerr + 's) \<Rightarrow> 's \<Rightarrow> pyerr + 's" where
  "set_if_given None setter self = Inr self"
| "set_if_given (Some v) setter self = setter self v"

section \<open>Pad\<close>

text \<open>
  \<^verbatim>\<open>Shape.__init__\<close> assigns \<^verbatim>\<open>name\<close> and \<^verbatim>\<open>number\<close> and \<^verbatim>\<open>Pad.__init__\<close> assigns \<^verbatim>\<open>round\<close>, so
  these three attributes always exist; \<^verbatim>\<open>left\<close>, \<^verbatim>\<open>width\<close>, \<^verbatim>\<open>top\<close> and \<^verbatim>\<open>height\<close> exist only
  once assigned.
\<close>

record Pad =
  pad_name :: string
  pad_number :: pyid
  pad_round :: bool
  pad_left :: "pynum option"
  pad_width :: "pynum option"
  pad_top :: "pynum option"
  pad_height :: "pynum option"

text \<open>The class attribute \<^verbatim>\<open>Pad.clearance\<close>.\<close>

definition Pad_clearance :: pynum where
  "Pad_clearance = Num 1"

definition Pad_right :: "Pad \<Rightarrow> pyerr + pynum" where
  "Pad_right self = andthen (getattr (pad_left self)) (\<lambda>l. andthen (getattr (pad_width self)) (\<lambda>w. py_add l w))"

definition Pad_set_right :: "Pad \<Rightarrow> pynum \<Rightarrow> pyerr + Pad" where
  "Pad_set_right self v =
     andthen (getattr (pad_width self)) (\<lambda>w.
       if w \<noteq> PyNone
       then andthen (py_sub v w) (\<lambda>l. Inr (self\<lparr>pad_left := Some l\<rparr>))
       else andthen (getattr (pad_left self)) (\<lambda>l. andthen (py_sub v l) (\<lambda>w'. Inr (self\<lparr>pad_width := Some w'\<rparr>))))"

definition Pad_x :: "Pad \<Rightarrow> pyerr + pynum" where
  "Pad_x self = andthen (getattr (pad_left self)) (\<lambda>l. andthen (Pad_right self) (\<lambda>r. between l r (Num (1 / 2))))"

definition Pad_set_x :: "Pad \<Rightarrow> pynum \<Rightarrow> pyerr + Pad" where
  "Pad_set_x self v =
     andthen (getattr (pad_width self)) (\<lambda>w. andthen (py_truediv w (Num 2)) (\<lambda>h.
       andthen (py_sub v h) (\<lambda>l. Inr (self\<lparr>pad_left := Some l\<rparr>))))"

definition Pad_bottom :: "Pad \<Rightarrow> pyerr + pynum" where
  "Pad_bottom self = andthen (getattr (pad_top self)) (\<lambda>t. andthen (getattr (pad_height self)) (\<lambda>h. py_add t h))"

definition Pad_set_bottom :: "Pad \<Rightarrow> pynum \<Rightarrow> pyerr + Pad" where
  "Pad_set_bottom self v =
     andthen (getattr (pad_height self)) (\<lambda>h.
       if h \<noteq> PyNone
       then andthen (py_sub v h) (\<lambda>t. Inr (self\<lparr>pad_top := Some t\<rparr>))
       else andthen (getattr (pad_top self)) (\<lambda>t. andthen (py_sub v t) (\<lambda>h'. Inr (self\<lparr>pad_height := Some h'\<rparr>))))"

definition Pad_y :: "Pad \<Rightarrow> pyerr + pynum" where
  "Pad_y self = andthen (getattr (pad_top self)) (\<lambda>t. andthen (Pad_bottom self) (\<lambda>b. between t b (Num (1 / 2))))"

definition Pad_set_y :: "Pad \<Rightarrow> pynum \<Rightarrow> pyerr + Pad" where
  "Pad_set_y self v =
     andthen (getattr (pad_height self)) (\<lambda>h. andthen (py_truediv h (Num 2)) (\<lambda>hh.
       andthen (py_sub v hh) (\<lambda>t. Inr (self\<lparr>pad_top := Some t\<rparr>))))"

text \<open>\<^verbatim>\<open>getattr(base, key, None)\<close>: a missing attribute of the base reads as \<^verbatim>\<open>None\<close>.\<close>

fun getattr_default :: "pynum option \<Rightarrow> pynum" where
  "getattr_default None = PyNone"
| "getattr_default (Some v) = v"

text \<open>The object after \<^verbatim>\<open>Shape.__init__\<close> and \<^verbatim>\<open>self.round = False\<close>.\<close>

definition Pad_blank :: Pad where
  "Pad_blank = \<lparr>pad_name = '''', pad_number = IdStr '''', pad_round = False,
     pad_left = None, pad_width = None, pad_top = None, pad_height = None\<rparr>"

text \<open>The loop over \<^verbatim>\<open>inheritable_keys\<close> that copies the base.\<close>

definition Pad_inherit :: "Pad \<Rightarrow> Pad \<Rightarrow> Pad" where
  "Pad_inherit base self =
     self\<lparr>pad_left := Some (getattr_default (pad_left base)),
          pad_width := Some (getattr_default (pad_width base)),
          pad_top := Some (getattr_default (pad_top base)),
          pad_height := Some (getattr_default (pad_height base)),
          pad_number := pad_number base,
          pad_name := pad_name base,
          pad_round := pad_round base\<rparr>"

text \<open>
  The loop over \<^verbatim>\<open>all_keys\<close>, in the source's order: \<^verbatim>\<open>left, width, top, height, number,
  name, round\<close> are plain attributes, \<^verbatim>\<open>right, x, bottom, y\<close> go through the property setters.
\<close>

definition Pad_apply_kwargs :: "kwargs \<Rightarrow> Pad \<Rightarrow> pyerr + Pad" where
  "Pad_apply_kwargs kw self =
     andthen (set_if_given (kw_left kw) (\<lambda>s v. Inr (s\<lparr>pad_left := Some (Num v)\<rparr>)) self) (\<lambda>s1.
     andthen (set_if_given (kw_width kw) (\<lambda>s v. Inr (s\<lparr>pad_width := Some (Num v)\<rparr>)) s1) (\<lambda>s2.
     andthen (set_if_given (kw_top kw) (\<lambda>s v. Inr (s\<lparr>pad_top := Some (Num v)\<rparr>)) s2) (\<lambda>s3.
     andthen (set_if_given (kw_height kw) (\<lambda>s v. Inr (s\<lparr>pad_height := Some (Num v)\<rparr>)) s3) (\<lambda>s4.
     andthen (set_if_given (kw_number kw) (\<lambda>s v. Inr (s\<lparr>pad_number := v\<rparr>)) s4) (\<lambda>s5.
     andthen (set_if_given (kw_name kw) (\<lambda>s v. Inr (s\<lparr>pad_name := v\<rparr>)) s5) (\<lambda>s6.
     andthen (set_if_given (kw_round kw) (\<lambda>s v. Inr (s\<lparr>pad_round := v\<rparr>)) s6) (\<lambda>s7.
     andthen (set_if_given (kw_right kw) (\<lambda>s v. Pad_set_right s (Num v)) s7) (\<lambda>s8.
     andthen (set_if_given (kw_x kw) (\<lambda>s v. Pad_set_x s (Num v)) s8) (\<lambda>s9.
     andthen (set_if_given (kw_bottom kw) (\<lambda>s v. Pad_set_bottom s (Num v)) s9) (\<lambda>s10.
     set_if_given (kw_y kw) (\<lambda>s v. Pad_set_y s (Num v)) s10))))))))))"

definition Pad_init :: "Pad option \<Rightarrow> kwargs \<Rightarrow> pyerr + Pad" where
  "Pad_init base kw =
     Pad_apply_kwargs kw (case base of None \<Rightarrow> Pad_blank | Some b \<Rightarrow> Pad_inherit b Pad_blank)"

text \<open>
  One record of the output file, field by field in the order of the format string:
  \<^verbatim>\<open>Pad[x1 y1 x2 y2 thickness clearance mask "name" "number" flags]\<close>,
  \<^verbatim>\<open>Pin[x y diameter clearance mask hole "name" "number" flags]\<close>,
  \<^verbatim>\<open>ElementLine[x1 y1 x2 y2 thickness]\<close> and
  \<^verbatim>\<open>ElementArc[x y x_radius y_radius start_angle delta_angle thickness]\<close>.
\<close>

datatype pcb_record =
    PadRec int int int int int int int string pyid nat
  | PinRec int int int int int int string pyid nat
  | ElementLineRec int int int int int
  | ElementArcRec int int int int int int int

text \<open>
  The first half of \<^verbatim>\<open>Pad.pcb_repr\<close>: the branch on \<^verbatim>\<open>self.width > self.height\<close> and the
  local variables \<^verbatim>\<open>x1, y1, x2, y2, thickness\<close> it assigns.
\<close>

definition Pad_segment :: "Pad \<Rightarrow> pyerr + (pynum \<times> pynum \<times> pynum \<times> pynum \<times> pynum)" where
  "Pad_segment self =
     andthen (getattr (pad_width self)) (\<lambda>w. andthen (getattr (pad_height self)) (\<lambda>h.
     andthen (py_gt w h) (\<lambda>wide.
       if wide then
         andthen (getattr (pad_height self)) (\<lambda>thickness.
         andthen (getattr (pad_left self)) (\<lambda>l. andthen (py_truediv thickness (Num 2)) (\<lambda>half1.
         andthen (py_add l half1) (\<lambda>x1.
         andthen (Pad_y self) (\<lambda>y1.
         andthen (Pad_right self) (\<lambda>r. andthen (py_truediv thickness (Num 2)) (\<lambda>half2.
         andthen (py_sub r half2) (\<lambda>x2.
         andthen (Pad_y self) (\<lambda>y2. Inr (x1, y1, x2, y2, thickness))))))))))
       else
         andthen (getattr (pad_width self)) (\<lambda>thickness.
         andthen (Pad_x self) (\<lambda>x1.
         andthen (getattr (pad_top self)) (\<lambda>t. andthen (py_truediv thickness (Num 2)) (\<lambda>half1.
         andthen (py_add t half1) (\<lambda>y1.
         andthen (Pad_x self) (\<lambda>x2.
         andthen (Pad_bottom self) (\<lambda>b. andthen (py_truediv thickness (Num 2)) (\<lambda>half2.
         andthen (py_sub b half2) (\<lambda>y2. Inr (x1, y1, x2, y2, thickness)))))))))))))"

text \<open>The second half: \<^verbatim>\<open>mask\<close> and the format expression, its arguments from left to right.\<close>

definition Pad_pcb_repr :: "globals \<Rightarrow> Pad \<Rightarrow> pynum \<Rightarrow> pynum \<Rightarrow> pyerr + pcb_record" where
  "Pad_pcb_repr G self tx ty =
     andthen (Pad_segment self) (\<lambda>(x1, y1, x2, y2, thickness).
     andthen (py_add thickness Pad_clearance) (\<lambda>mask.
     andthen (call_global G ''Pad'' ''__mil_to_unit'' (py_add x1 tx)) (\<lambda>f1.
     andthen (call_global G ''Pad'' ''__mil_to_unit'' (py_add y1 ty)) (\<lambda>f2.
     andthen (call_global G ''Pad'' ''__mil_to_unit'' (py_add x2 tx)) (\<lambda>f3.
     andthen (call_global G ''Pad'' ''__mil_to_unit'' (py_add y2 ty)) (\<lambda>f4.
     andthen (call_global G ''Pad'' ''__mil_to_unit'' (Inr thickness)) (\<lambda>f5.
     andthen (call_global G ''Pad'' ''__mil_to_unit'' (Inr Pad_clearance)) (\<lambda>f6.
     andthen (call_global G ''Pad'' ''__mil_to_unit'' (Inr mask)) (\<lambda>f7.
     Inr (PadRec f1 f2 f3 f4 f5 f6 f7 (pad_name self) (pad_number self)
            (if pad_round self then 0 else 0x100)))))))))))"

section \<open>Pin\<close>

record Pin =
  pin_name :: string
  pin_number :: pyid
  pin_round :: bool
  pin_x :: "pynum option"
  pin_y :: "pynum option"
  pin_hole :: "pynum option"
  pin_diameter :: "pynum option"

text \<open>The class attributes \<^verbatim>\<open>Pin.clearance\<close> and \<^verbatim>\<open>Pin.mask_offset\<close>.\<close>

definition Pin_clearance :: pynum where
  "Pin_clearance = Num 2"

definition Pin_mask_offset :: pynum where
  "Pin_mask_offset = Num 1"

definition Pin_blank :: Pin where
  "Pin_blank = \<lparr>pin_name = '''', pin_number = IdStr '''', pin_round = True,
     pin_x = None, pin_y = None, pin_hole = None, pin_diameter = None\<rparr>"

definition Pin_inherit :: "Pin \<Rightarrow> Pin \<Rightarrow> Pin" where
  "Pin_inherit base self =
     self\<lparr>pin_x := Some (getattr_default (pin_x base)),
          pin_y := Some (getattr_default (pin_y base)),
          pin_hole := Some (getattr_default (pin_hole base)),
          pin_diameter := Some (getattr_default (pin_diameter base)),
          pin_number := pin_number base,
          pin_name := pin_name base,
          pin_round := pin_round base\<rparr>"

text \<open>
  The keys of \<^verbatim>\<open>Pin.__init__\<close> are \<^verbatim>\<open>x, y, hole, diameter, number, name, round\<close>, all plain
  attributes, so the constructor cannot fail; the edge properties of a pin are not among them.
\<close>

definition Pin_apply_kwargs :: "kwargs \<Rightarrow> Pin \<Rightarrow> Pin" where
  "Pin_apply_kwargs kw self =
     (let s1 = (case kw_x kw of None \<Rightarrow> self | Some v \<Rightarrow> self\<lparr>pin_x := Some (Num v)\<rparr>);
          s2 = (case kw_y kw of None \<Rightarrow> s1 | Some v \<Rightarrow> s1\<lparr>pin_y := Some (Num v)\<rparr>);
          s3 = (case kw_hole kw of None \<Rightarrow> s2 | Some v \<Rightarrow> s2\<lparr>pin_hole := Some (Num v)\<rparr>);
          s4 = (case kw_diameter kw of None \<Rightarrow> s3 | Some v \<Rightarrow> s3\<lparr>pin_diameter := Some (Num v)\<rparr>);
          s5 = (case kw_number kw of None \<Rightarrow> s4 | Some v \<Rightarrow> s4\<lparr>pin_number := v\<rparr>);
          s6 = (case kw_name kw of None \<Rightarrow> s5 | Some v \<Rightarrow> s5\<lparr>pin_name := v\<rparr>)
      in (case kw_round kw of None \<Rightarrow> s6 | Some v \<Rightarrow> s6\<lparr>pin_round := v\<rparr>))"

definition Pin_init :: "Pin option \<Rightarrow> kwargs \<Rightarrow> Pin" where
  "Pin_init base kw =
     Pin_apply_kwargs kw (case base of None \<Rightarrow> Pin_blank | Some b \<Rightarrow> Pin_inherit b Pin_blank)"

text \<open>
  \<^verbatim>\<open>Pin.pcb_repr\<close>. The seventh argument of the format expression is written
  \<^verbatim>\<open>__self.name\<close> in the source, a read of the global name \<^verbatim>\<open>__self\<close>.
\<close>

definition Pin_pcb_repr :: "globals \<Rightarrow> Pin \<Rightarrow> pynum \<Rightarrow> pynum \<Rightarrow> pyerr + pcb_record" where
  "Pin_pcb_repr G self tx ty =
     andthen (call_global G ''Pin'' ''__mil_to_unit''
                (andthen (getattr (pin_x self)) (\<lambda>x. py_add x tx))) (\<lambda>f1.
     andthen (call_global G ''Pin'' ''__mil_to_unit''
                (andthen (getattr (pin_y self)) (\<lambda>y. py_add y ty))) (\<lambda>f2.
     andthen (call_global G ''Pin'' ''__mil_to_unit'' (getattr (pin_diameter self))) (\<lambda>f3.
     andthen (call_global G ''Pin'' ''__mil_to_unit'' (Inr Pin_clearance)) (\<lambda>f4.
     andthen (call_global G ''Pin'' ''__mil_to_unit''
                (andthen (getattr (pin_diameter self)) (\<lambda>d. py_add d Pin_mask_offset))) (\<lambda>f5.
     andthen (call_global G ''Pin'' ''__mil_to_unit'' (getattr (pin_hole self))) (\<lambda>f6.
     andthen (global_name_attr G ''Pin'' ''__self'') (\<lambda>nm.
     Inr (PinRec f1 f2 f3 f4 f5 f6 nm (pin_number self)
            (or 0x1 (if pin_round self then 0 else 0x100))))))))))"

section \<open>Silkscreen shapes\<close>

record SilkLine =
  sl_x1 :: real
  sl_y1 :: real
  sl_x2 :: real
  sl_y2 :: real
  sl_thickness :: real

text \<open>The class attribute \<^verbatim>\<open>SilkLine.default_thickness\<close>.\<close>

definition default_thickness :: real where
  "default_thickness = 10"

text \<open>\<^verbatim>\<open>kwargs.get("thickness", self.default_thickness)\<close> on an optional keyword.\<close>

definition SilkLine_init :: "real \<Rightarrow> real \<Rightarrow> real \<Rightarrow> real \<Rightarrow> real option \<Rightarrow> SilkLine" where
  "SilkLine_init x1 y1 x2 y2 thickness =
     \<lparr>sl_x1 = x1, sl_y1 = y1, sl_x2 = x2, sl_y2 = y2,
      sl_thickness = (case thickness of None \<Rightarrow> default_thickness | Some t \<Rightarrow> t)\<rparr>"

definition SilkLine_pcb_repr :: "globals \<Rightarrow> SilkLine \<Rightarrow> pynum \<Rightarrow> pynum \<Rightarrow> pyerr + pcb_record" where
  "SilkLine_pcb_repr G self tx ty =
     andthen (call_global G ''SilkLine'' ''__mil_to_unit'' (py_add (Num (sl_x1 self)) tx)) (\<lambda>f1.
     andthen (call_global G ''SilkLine'' ''__mil_to_unit'' (py_add (Num (sl_y1 self)) ty)) (\<lambda>f2.
     andthen (call_global G ''SilkLine'' ''__mil_to_unit'' (py_add (Num (sl_x2 self)) tx)) (\<lambda>f3.
     andthen (call_global G ''SilkLine'' ''__mil_to_unit'' (py_add (Num (sl_y2 self)) ty)) (\<lambda>f4.
     andthen (call_global G ''SilkLine'' ''__mil_to_unit'' (Inr (Num (sl_thickness self)))) (\<lambda>f5.
     Inr (ElementLineRec f1 f2 f3 f4 f5))))))"

record SilkPolyline =
  segments :: "SilkLine list"

text \<open>
  The loop \<^verbatim>\<open>for x, y in points\<close> of \<^verbatim>\<open>SilkPolyline.__init__\<close>, with its two variables
  \<^verbatim>\<open>self.segments\<close> and \<^verbatim>\<open>last_point\<close>; it returns both.
\<close>

fun polyline_loop :: "real \<Rightarrow> (real \<times> real) list \<Rightarrow> SilkLine list \<Rightarrow> (real \<times> real) option
    \<Rightarrow> SilkLine list \<times> (real \<times> real) option" where
  "polyline_loop th [] segs last_point = (segs, last_point)"
| "polyline_loop th ((x, y) # points) segs None = polyline_loop th points segs (Some (x, y))"
| "polyline_loop th ((x, y) # points) segs (Some (lx, ly)) =
     polyline_loop th points (segs @ [SilkLine_init lx ly x y (Some th)]) (Some (x, y))"

text \<open>
  After the loop, \<^verbatim>\<open>closed=True\<close> appends one more segment: \<^verbatim>\<open>last_point[0]\<close> is evaluated
  first (a \<^verbatim>\<open>TypeError\<close> on \<^verbatim>\<open>None\<close>), then \<^verbatim>\<open>self.segments[0]\<close> (an \<^verbatim>\<open>IndexError\<close> on the
  empty list).
\<close>

definition SilkPolyline_init :: "(real \<times> real) list \<Rightarrow> real option \<Rightarrow> bool \<Rightarrow> pyerr + SilkPolyline" where
  "SilkPolyline_init points thickness closed_kw =
     (let th = (case thickness of None \<Rightarrow> default_thickness | Some t \<Rightarrow> t);
          (segs, last_point) = polyline_loop th points [] None
      in if closed_kw then
           (case last_point of
              None \<Rightarrow> Inl TypeError
            | Some (lx, ly) \<Rightarrow>
                (case segs of
                   [] \<Rightarrow> Inl IndexError
                 | s0 # _ \<Rightarrow> Inr \<lparr>segments = segs @ [SilkLine_init lx ly (sl_x1 s0) (sl_y1 s0) (Some th)]\<rparr>))
         else Inr \<lparr>segments = segs\<rparr>)"

fun map_err :: "('a \<Rightarrow> pyerr + 'b) \<Rightarrow> 'a list \<Rightarrow> pyerr + 'b list" where
  "map_err f [] = Inr []"
| "map_err f (x # xs) = andthen (f x) (\<lambda>y. andthen (map_err f xs) (\<lambda>ys. Inr (y # ys)))"

text \<open>The lines of a polyline: one record per segment, joined by newlines in the source.\<close>

definition SilkPolyline_pcb_repr :: "globals \<Rightarrow> SilkPolyline \<Rightarrow> pynum \<Rightarrow> pynum \<Rightarrow> pyerr + pcb_record list" where
  "SilkPolyline_pcb_repr G self tx ty = map_err (\<lambda>s. SilkLine_pcb_repr G s tx ty) (segments self)"

record SilkArc =
  arc_x :: real
  arc_y :: real
  x_radius :: pynum
  y_radius :: pynum
  start_angle :: real
  delta_angle :: real
  arc_thickness :: real

record arc_kwargs =
  akw_x_radius :: "real option"
  akw_y_radius :: "real option"
  akw_start_angle :: "real option"
  akw_delta_angle :: "real option"
  akw_thickness :: "real option"
  akw_radius :: "real option"
  akw_diameter :: "real option"

text \<open>The setters of the properties \<^verbatim>\<open>radius\<close> and \<^verbatim>\<open>diameter\<close>.\<close>

definition SilkArc_set_radius :: "SilkArc \<Rightarrow> real \<Rightarrow> SilkArc" where
  "SilkArc_set_radius self v = self\<lparr>x_radius := Num v, y_radius := Num v\<rparr>"

definition SilkArc_set_diameter :: "SilkArc \<Rightarrow> real \<Rightarrow> SilkArc" where
  "SilkArc_set_diameter self v = SilkArc_set_radius self (v / 2)"

definition SilkArc_init :: "real \<Rightarrow> real \<Rightarrow> arc_kwargs \<Rightarrow> SilkArc" where
  "SilkArc_init x y kw =
     (let self = \<lparr>arc_x = x, arc_y = y,
                  x_radius = (case akw_x_radius kw of None \<Rightarrow> PyNone | Some r \<Rightarrow> Num r),
                  y_radius = (case akw_y_radius kw of None \<Rightarrow> PyNone | Some r \<Rightarrow> Num r),
                  start_angle = (case akw_start_angle kw of None \<Rightarrow> 0 | Some a \<Rightarrow> a),
                  delta_angle = (case akw_delta_angle kw of None \<Rightarrow> 360 | Some a \<Rightarrow> a),
                  arc_thickness = (case akw_thickness kw of None \<Rightarrow> default_thickness | Some t \<Rightarrow> t)\<rparr>;
          self1 = (case akw_radius kw of None \<Rightarrow> self | Some r \<Rightarrow> SilkArc_set_radius self r)
      in (case akw_diameter kw of None \<Rightarrow> self1 | Some d \<Rightarrow> SilkArc_set_diameter self1 d))"

text \<open>\<^verbatim>\<open>%d\<close> applied to a number truncates it toward zero.\<close>

definition percent_d :: "real \<Rightarrow> int" where
  "percent_d v = (if 0 \<le> v then \<lfloor>v\<rfloor> else \<lceil>v\<rceil>)"

definition SilkArc_pcb_repr :: "globals \<Rightarrow> SilkArc \<Rightarrow> pynum \<Rightarrow> pynum \<Rightarrow> pyerr + pcb_record" where
  "SilkArc_pcb_repr G self tx ty =
     andthen (call_global G ''SilkArc'' ''__mil_to_unit'' (py_add (Num (arc_x self)) tx)) (\<lambda>f1.
     andthen (call_global G ''SilkArc'' ''__mil_to_unit'' (py_add (Num (arc_y self)) ty)) (\<lambda>f2.
     andthen (call_global G ''SilkArc'' ''__mil_to_unit'' (Inr (x_radius self))) (\<lambda>f3.
     andthen (call_global G ''SilkArc'' ''__mil_to_unit'' (Inr (y_radius self))) (\<lambda>f4.
     andthen (call_global G ''SilkArc'' ''__mil_to_unit'' (Inr (Num (arc_thickness self)))) (\<lambda>f7.
     Inr (ElementArcRec f1 f2 f3 f4 (percent_d (start_angle self)) (percent_d (delta_angle self)) f7))))))"

section \<open>Footprint\<close>

datatype Shape = PadS Pad | PinS Pin | LineS SilkLine | PolyS SilkPolyline | ArcS SilkArc

text \<open>
  The footprint owns its shapes in insertion order. The model stores each shape by value
  at the moment it is appended; shapes that are mutated after they were added are outside
  this part of the model (the store of section \<open>Objects and references\<close> covers sharing).
\<close>

record Footprint =
  fp_name :: string
  description :: string
  mark_x :: pynum
  mark_y :: pynum
  text_x :: real
  text_y :: real
  text_direction :: int
  text_scale :: int
  shapes :: "Shape list"
  pinpadcounter :: int

definition Footprint_init :: "string \<Rightarrow> string option \<Rightarrow> Footprint" where
  "Footprint_init name descr =
     \<lparr>fp_name = name, description = (case descr of None \<Rightarrow> '''' | Some d \<Rightarrow> d),
      mark_x = Num 0, mark_y = Num 0, text_x = 0, text_y = 0, text_direction = 0,
      text_scale = 100, shapes = [], pinpadcounter = 1\<rparr>"

text \<open>
  \<^verbatim>\<open>if not "base" in kwargs: kwargs["number"] = kwargs.get("number", self.pinpadcounter)\<close>,
  then construct, append and increment the counter.
\<close>

definition number_for :: "Footprint \<Rightarrow> 'b option \<Rightarrow> kwargs \<Rightarrow> kwargs" where
  "number_for self base kw =
     (case base of
        None \<Rightarrow> kw\<lparr>kw_number := Some (case kw_number kw of None \<Rightarrow> IdInt (pinpadcounter self) | Some n \<Rightarrow> n)\<rparr>
      | Some _ \<Rightarrow> kw)"

definition add_pad :: "Footprint \<Rightarrow> Pad option \<Rightarrow> kwargs \<Rightarrow> pyerr + (Pad \<times> Footprint)" where
  "add_pad self base kw =
     andthen (Pad_init base (number_for self base kw)) (\<lambda>pad.
       Inr (pad, self\<lparr>shapes := shapes self @ [PadS pad], pinpadcounter := pinpadcounter self + 1\<rparr>))"

definition add_pin :: "Footprint \<Rightarrow> Pin option \<Rightarrow> kwargs \<Rightarrow> pyerr + (Pin \<times> Footprint)" where
  "add_pin self base kw =
     (let pin = Pin_init base (number_for self base kw)
      in Inr (pin, self\<lparr>shapes := shapes self @ [PinS pin], pinpadcounter := pinpadcounter self + 1\<rparr>))"

text \<open>\<^verbatim>\<open>dx if not isinstance(dx, tuple) else dx[i % len(dx)]\<close>.\<close>

fun step_at :: "step \<Rightarrow> nat \<Rightarrow> pyerr + real" where
  "step_at (Scalar d) i = Inr d"
| "step_at (Tuple ds) i = (if ds = [] then Inl ZeroDivisionError else Inr (ds ! (i mod length ds)))"

text \<open>\<^verbatim>\<open>kwargs[key] += step\<close>: the key is read first, then the step is evaluated.\<close>

definition advance :: "real option \<Rightarrow> step \<Rightarrow> nat \<Rightarrow> pyerr + real" where
  "advance cur d i =
     (case cur of None \<Rightarrow> Inl KeyError | Some v \<Rightarrow> andthen (step_at d i) (\<lambda>s. Inr (v + s)))"

text \<open>
  The body of \<^verbatim>\<open>for i in range(0, count)\<close> in \<^verbatim>\<open>__add_shapes\<close>, over the remaining indices;
  the loop variables are \<^verbatim>\<open>kwargs\<close>, \<^verbatim>\<open>number\<close>, \<^verbatim>\<open>added_shapes\<close> and the footprint.
\<close>

fun add_shapes_loop ::
  "(Footprint \<Rightarrow> 'b option \<Rightarrow> kwargs \<Rightarrow> pyerr + ('s \<times> Footprint)) \<Rightarrow> 'b option \<Rightarrow> step \<Rightarrow> step
    \<Rightarrow> nat list \<Rightarrow> kwargs \<Rightarrow> pyid \<Rightarrow> 's list \<Rightarrow> Footprint \<Rightarrow> pyerr + ('s list \<times> Footprint)" where
  "add_shapes_loop fn base dx dy [] kw number added self = Inr (added, self)"
| "add_shapes_loop fn base dx dy (i # rest) kw number added self =
     andthen (fn self base (kw\<lparr>kw_number := Some number\<rparr>)) (\<lambda>(shape, self').
     andthen (advance (kw_x kw) dx i) (\<lambda>x'.
     andthen (advance (kw_y kw) dy i) (\<lambda>y'.
     andthen (id_incr number) (\<lambda>number'.
       add_shapes_loop fn base dx dy rest
         (kw\<lparr>kw_number := Some number, kw_x := Some x', kw_y := Some y'\<rparr>)
         number' (added @ [shape]) self'))))"

definition add_shapes ::
  "Footprint \<Rightarrow> int \<Rightarrow> (Footprint \<Rightarrow> 'b option \<Rightarrow> kwargs \<Rightarrow> pyerr + ('s \<times> Footprint)) \<Rightarrow> 'b option
    \<Rightarrow> kwargs \<Rightarrow> pyerr + ('s list \<times> Footprint)" where
  "add_shapes self count fn base kw =
     (let number = (case kw_number kw of None \<Rightarrow> IdInt (pinpadcounter self) | Some n \<Rightarrow> n);
          dx = (case kw_dx kw of None \<Rightarrow> Scalar 0 | Some d \<Rightarrow> d);
          dy = (case kw_dy kw of None \<Rightarrow> Scalar 0 | Some d \<Rightarrow> d)
      in add_shapes_loop fn base dx dy [0 ..< nat count] kw number [] self)"

definition add_pads :: "Footprint \<Rightarrow> int \<Rightarrow> Pad option \<Rightarrow> kwargs \<Rightarrow> pyerr + (Pad list \<times> Footprint)" where
  "add_pads self count base kw = add_shapes self count add_pad base kw"

definition add_pins :: "Footprint \<Rightarrow> int \<Rightarrow> Pin option \<Rightarrow> kwargs \<Rightarrow> pyerr + (Pin list \<times> Footprint)" where
  "add_pins self count base kw = add_shapes self count add_pin base kw"

definition add_line :: "Footprint \<Rightarrow> real \<Rightarrow> real \<Rightarrow> real \<Rightarrow> real \<Rightarrow> real option \<Rightarrow> SilkLine \<times> Footprint" where
  "add_line self x1 y1 x2 y2 thickness =
     (let line = SilkLine_init x1 y1 x2 y2 thickness
      in (line, self\<lparr>shapes := shapes self @ [LineS line]\<rparr>))"

definition add_polyline :: "Footprint \<Rightarrow> (real \<times> real) list \<Rightarrow> real option \<Rightarrow> bool
    \<Rightarrow> pyerr + (SilkPolyline \<times> Footprint)" where
  "add_polyline self points thickness closed_kw =
     andthen (SilkPolyline_init points thickness closed_kw) (\<lambda>pline.
       Inr (pline, self\<lparr>shapes := shapes self @ [PolyS pline]\<rparr>))"

definition add_arc :: "Footprint \<Rightarrow> real \<Rightarrow> real \<Rightarrow> arc_kwargs \<Rightarrow> SilkArc \<times> Footprint" where
  "add_arc self x y kw =
     (let arc = SilkArc_init x y kw in (arc, self\<lparr>shapes := shapes self @ [ArcS arc]\<rparr>))"

text \<open>\<^verbatim>\<open>mark\<close> reads \<^verbatim>\<open>.x\<close> and \<^verbatim>\<open>.y\<close> of its argument: the properties of a pad, the attributes
  of a pin or an arc; a line and a polyline have neither.\<close>

fun shape_x :: "Shape \<Rightarrow> pyerr + pynum" where
  "shape_x (PadS p) = Pad_x p"
| "shape_x (PinS p) = getattr (pin_x p)"
| "shape_x (ArcS a) = Inr (Num (arc_x a))"
| "shape_x _ = Inl AttributeError"

fun shape_y :: "Shape \<Rightarrow> pyerr + pynum" where
  "shape_y (PadS p) = Pad_y p"
| "shape_y (PinS p) = getattr (pin_y p)"
| "shape_y (ArcS a) = Inr (Num (arc_y a))"
| "shape_y _ = Inl AttributeError"

definition mark :: "Footprint \<Rightarrow> Shape \<Rightarrow> pyerr + Footprint" where
  "mark self pin_or_pad =
     andthen (shape_x pin_or_pad) (\<lambda>mx. andthen (shape_y pin_or_pad) (\<lambda>my.
       Inr (self\<lparr>mark_x := mx, mark_y := my\<rparr>)))"

section \<open>Serialization of a footprint\<close>

fun py_neg :: "pynum \<Rightarrow> pyerr + pynum" where
  "py_neg (Num a) = Inr (Num (- a))"
| "py_neg PyNone = Inl TypeError"

text \<open>The text a shape contributes to the body: its records, one per line.\<close>

fun Shape_pcb_repr :: "globals \<Rightarrow> Shape \<Rightarrow> pynum \<Rightarrow> pynum \<Rightarrow> pyerr + pcb_record list" where
  "Shape_pcb_repr G (PadS p) tx ty = andthen (Pad_pcb_repr G p tx ty) (\<lambda>r. Inr [r])"
| "Shape_pcb_repr G (PinS p) tx ty = andthen (Pin_pcb_repr G p tx ty) (\<lambda>r. Inr [r])"
| "Shape_pcb_repr G (LineS l) tx ty = andthen (SilkLine_pcb_repr G l tx ty) (\<lambda>r. Inr [r])"
| "Shape_pcb_repr G (PolyS pl) tx ty = SilkPolyline_pcb_repr G pl tx ty"
| "Shape_pcb_repr G (ArcS a) tx ty = andthen (SilkArc_pcb_repr G a tx ty) (\<lambda>r. Inr [r])"

text \<open>
  The whole file: the header \<^verbatim>\<open>Element["" "description" "" "name" mark_x mark_y text_x text_y
  text_direction text_scale ""]\<close> and the body, the text of each shape in order.
\<close>

datatype pcb_element = Element string string int int int int int int "pcb_record list list"

definition Footprint_str :: "globals \<Rightarrow> Footprint \<Rightarrow> pyerr + pcb_element" where
  "Footprint_str G self =
     andthen (call_global G ''Footprint'' ''__mil_to_unit'' (Inr (mark_x self))) (\<lambda>h1.
     andthen (call_global G ''Footprint'' ''__mil_to_unit'' (Inr (mark_y self))) (\<lambda>h2.
     andthen (call_global G ''Footprint'' ''__mil_to_unit'' (Inr (Num (text_x self)))) (\<lambda>h3.
     andthen (call_global G ''Footprint'' ''__mil_to_unit'' (Inr (Num (text_y self)))) (\<lambda>h4.
     andthen (map_err (\<lambda>s. andthen (py_neg (mark_x self)) (\<lambda>tx. andthen (py_neg (mark_y self)) (\<lambda>ty.
                Shape_pcb_repr G s tx ty))) (shapes self)) (\<lambda>body.
     Inr (Element (description self) (fp_name self) h1 h2 h3 h4
            (text_direction self) (text_scale self) body))))))"

section \<open>Objects and references\<close>

text \<open>
  Pads and pins are mutable objects and \<^verbatim>\<open>base\<close> is a reference to one. The store maps an
  address to the object that lives there, and a reference is an address below the length of
  the store; a constructor reads its base through the reference, builds the new object and
  puts it at the next free address.
\<close>

type_synonym 'o store = "'o list"

definition Pad_new :: "Pad store \<Rightarrow> nat option \<Rightarrow> kwargs \<Rightarrow> pyerr + (nat \<times> Pad store)" where
  "Pad_new st base kw =
     andthen (Pad_init (map_option (\<lambda>a. st ! a) base) kw) (\<lambda>pad. Inr (length st, st @ [pad]))"

definition Pin_new :: "Pin store \<Rightarrow> nat option \<Rightarrow> kwargs \<Rightarrow> nat \<times> Pin store" where
  "Pin_new st base kw = (length st, st @ [Pin_init (map_option (\<lambda>a. st ! a) base) kw])"

text \<open>An assignment to an attribute of the object at address \<open>a\<close>: any update of that object.\<close>

definition mutate :: "'o store \<Rightarrow> nat \<Rightarrow> ('o \<Rightarrow> 'o) \<Rightarrow> 'o store" where
  "mutate st a upd = st[a := upd (st ! a)]"

section \<open>Namespaces and examples used in the statements\<close>

text \<open>
  The module's namespace after every class-private spelling of the helper has been bound
  to it, as a caller can do by assigning attributes of the imported module. The name
  \<^verbatim>\<open>_Pin__self\<close> stays unbound.
\<close>

definition rebound_globals :: globals where
  "rebound_globals =
     footprint_globals(''_Pad__mil_to_unit'' \<mapsto> Func mil_to_unit,
                       ''_Pin__mil_to_unit'' \<mapsto> Func mil_to_unit,
                       ''_SilkLine__mil_to_unit'' \<mapsto> Func mil_to_unit,
                       ''_SilkArc__mil_to_unit'' \<mapsto> Func mil_to_unit,
                       ''_Footprint__mil_to_unit'' \<mapsto> Func mil_to_unit)"

text \<open>A pad as \<^verbatim>\<open>Pad(left=l, width=w, top=t, height=h)\<close> leaves it.\<close>

definition plain_pad :: "real \<Rightarrow> real \<Rightarrow> real \<Rightarrow> real \<Rightarrow> Pad" where
  "plain_pad l w t h =
     \<lparr>pad_name = '''', pad_number = IdStr '''', pad_round = False,
      pad_left = Some (Num l), pad_width = Some (Num w),
      pad_top = Some (Num t), pad_height = Some (Num h)\<rparr>"

text \<open>A pin as \<^verbatim>\<open>Pin(x=x, y=y, hole=hole, diameter=diameter, number=k)\<close> leaves it.\<close>

definition plain_pin :: "real \<Rightarrow> real \<Rightarrow> real \<Rightarrow> real \<Rightarrow> int \<Rightarrow> Pin" where
  "plain_pin x y hole diameter k =
     \<lparr>pin_name = '''', pin_number = IdInt k, pin_round = True,
      pin_x = Some (Num x), pin_y = Some (Num y),
      pin_hole = Some (Num hole), pin_diameter = Some (Num diameter)\<rparr>"

section \<open>Basic facts\<close>

lemma set_if_given_plain:
  "set_if_given ov (\<lambda>s v. Inr (f s v)) self = Inr (case ov of None \<Rightarrow> self | Some v \<Rightarrow> f self v)"
  by (cases ov) simp_all

lemma mangle_Pad: "mangle ''Pad'' ''__mil_to_unit'' = ''_Pad__mil_to_unit''"
  by (simp add: mangle_def)

lemma mangle_Pin: "mangle ''Pin'' ''__mil_to_unit'' = ''_Pin__mil_to_unit''"
  by (simp add: mangle_def)

lemma mangle_Pin_self: "mangle ''Pin'' ''__self'' = ''_Pin__self''"
  by (simp add: mangle_def)

lemma mangle_Footprint: "mangle ''Footprint'' ''__mil_to_unit'' = ''_Footprint__mil_to_unit''"
  by (simp add: mangle_def)

lemma unbound_Pad: "footprint_globals ''_Pad__mil_to_unit'' = None"
  by (simp add: footprint_globals_def)

lemma unbound_Pin: "footprint_globals ''_Pin__mil_to_unit'' = None"
  by (simp add: footprint_globals_def)

lemma unbound_Footprint: "footprint_globals ''_Footprint__mil_to_unit'' = None"
  by (simp add: footprint_globals_def)

lemma rebound_Pad: "rebound_globals ''_Pad__mil_to_unit'' = Some (Func mil_to_unit)"
  by (simp add: rebound_globals_def)

lemma rebound_Footprint: "rebound_globals ''_Footprint__mil_to_unit'' = Some (Func mil_to_unit)"
  by (simp add: rebound_globals_def)

lemma rebound_Pin: "rebound_globals ''_Pin__mil_to_unit'' = Some (Func mil_to_unit)"
  by (simp add: rebound_globals_def)

lemma rebound_Pin_self: "rebound_globals ''_Pin__self'' = None"
  by (simp add: rebound_globals_def footprint_globals_def)

lemma mil_to_unit_Num: "mil_to_unit (Num r) = Inr (py_round (r * 100))"
  by (simp add: mil_to_unit_def)

lemma py_round_of_int: "py_round (of_int k) = k"
  by (simp add: py_round_def)

lemma py_round_0: "py_round 0 = 0"
  using py_round_of_int [of 0] by simp

lemma call_helper_Num:
  "G (mangle cls ''__mil_to_unit'') = Some (Func mil_to_unit)
    \<Longrightarrow> call_global G cls ''__mil_to_unit'' (Inr (Num r)) = Inr (py_round (r * 100))"
  by (simp add: call_global_def mil_to_unit_Num)

subsection \<open>Serialization under the module's own namespace\<close>

lemma Pin_pcb_repr_NameError: "Pin_pcb_repr footprint_globals p tx ty = Inl NameError"
  by (simp add: Pin_pcb_repr_def call_global_def mangle_Pin unbound_Pin)

lemma Footprint_str_NameError: "Footprint_str footprint_globals fp = Inl NameError"
  by (simp add: Footprint_str_def call_global_def mangle_Footprint unbound_Footprint)

lemma Pad_pcb_repr_no_record: "Pad_pcb_repr footprint_globals p tx ty \<noteq> Inr r"
proof (cases "Pad_segment p")
  case (Inl e)
  then show ?thesis by (simp add: Pad_pcb_repr_def)
next
  case (Inr seg)
  obtain x1 y1 x2 y2 th where "seg = (x1, y1, x2, y2, th)" by (cases seg) auto
  with Inr show ?thesis
    by (cases "py_add th Pad_clearance")
       (simp_all add: Pad_pcb_repr_def call_global_def mangle_Pad unbound_Pad)
qed

lemma andthen_eq_Inr: "andthen m f = Inr r \<longleftrightarrow> (\<exists>v. m = Inr v \<and> f v = Inr r)"
  by (cases m) simp_all

lemma Pin_pcb_repr_rebound: "Pin_pcb_repr rebound_globals p tx ty \<noteq> Inr r"
  by (simp add: Pin_pcb_repr_def andthen_eq_Inr global_name_attr_def mangle_Pin_self rebound_Pin_self)

subsection \<open>Pad geometry\<close>

lemma Pad_init_plain:
  assumes "kw_left kw = Some l" "kw_width kw = Some w" "kw_top kw = Some t" "kw_height kw = Some h"
    and "kw_right kw = None" "kw_x kw = None" "kw_bottom kw = None" "kw_y kw = None"
  shows "Pad_init None kw =
     Inr ((plain_pad l w t h)
           \<lparr>pad_name := (case kw_name kw of None \<Rightarrow> '''' | Some n \<Rightarrow> n),
            pad_number := (case kw_number kw of None \<Rightarrow> IdStr '''' | Some n \<Rightarrow> n),
            pad_round := (case kw_round kw of None \<Rightarrow> False | Some r \<Rightarrow> r)\<rparr>)"
  using assms
  by (simp add: Pad_init_def Pad_apply_kwargs_def Pad_blank_def plain_pad_def set_if_given_plain
      split: option.splits)

lemma Pad_right_resolved:
  "pad_left p = Some (Num l) \<Longrightarrow> pad_width p = Some (Num w) \<Longrightarrow> Pad_right p = Inr (Num (l + w))"
  by (simp add: Pad_right_def)

lemma Pad_bottom_resolved:
  "pad_top p = Some (Num t) \<Longrightarrow> pad_height p = Some (Num h) \<Longrightarrow> Pad_bottom p = Inr (Num (t + h))"
  by (simp add: Pad_bottom_def)

lemma Pad_x_resolved:
  "pad_left p = Some (Num l) \<Longrightarrow> pad_width p = Some (Num w) \<Longrightarrow> Pad_x p = Inr (Num (l + w / 2))"
  by (simp add: Pad_x_def Pad_right_def between_def field_simps)

lemma Pad_y_resolved:
  "pad_top p = Some (Num t) \<Longrightarrow> pad_height p = Some (Num h) \<Longrightarrow> Pad_y p = Inr (Num (t + h / 2))"
  by (simp add: Pad_y_def Pad_bottom_def between_def field_simps)

lemma Pad_set_x_resolved:
  "pad_width p = Some (Num w) \<Longrightarrow> Pad_set_x p (Num v) = Inr (p\<lparr>pad_left := Some (Num (v - w / 2))\<rparr>)"
  by (simp add: Pad_set_x_def)

lemma Pad_segment_resolved:
  assumes "pad_left p = Some (Num l)" "pad_width p = Some (Num w)"
    "pad_top p = Some (Num t)" "pad_height p = Some (Num h)"
  shows "Pad_segment p =
     Inr (if h < w
          then (Num (l + h / 2), Num (t + h / 2), Num (l + w - h / 2), Num (t + h / 2), Num h)
          else (Num (l + w / 2), Num (t + w / 2), Num (l + w / 2), Num (t + h - w / 2), Num w))"
  using assms
  by (simp add: Pad_segment_def Pad_x_def Pad_y_def Pad_right_def Pad_bottom_def between_def field_simps)

lemma Pad_pcb_repr_resolved:
  assumes "pad_left p = Some (Num l)" "pad_width p = Some (Num w)"
    "pad_top p = Some (Num t)" "pad_height p = Some (Num h)"
    and G: "G ''_Pad__mil_to_unit'' = Some (Func mil_to_unit)"
  shows "Pad_pcb_repr G p (Num tx) (Num ty) =
     Inr (if h < w
          then PadRec (py_round ((l + h / 2 + tx) * 100)) (py_round ((t + h / 2 + ty) * 100))
                      (py_round ((l + w - h / 2 + tx) * 100)) (py_round ((t + h / 2 + ty) * 100))
                      (py_round (h * 100)) (py_round (1 * 100)) (py_round ((h + 1) * 100))
                      (pad_name p) (pad_number p) (if pad_round p then 0 else 0x100)
          else PadRec (py_round ((l + w / 2 + tx) * 100)) (py_round ((t + w / 2 + ty) * 100))
                      (py_round ((l + w / 2 + tx) * 100)) (py_round ((t + h - w / 2 + ty) * 100))
                      (py_round (w * 100)) (py_round (1 * 100)) (py_round ((w + 1) * 100))
                      (pad_name p) (pad_number p) (if pad_round p then 0 else 0x100))"
proof -
  have call: "call_global G ''Pad'' ''__mil_to_unit'' (Inr (Num r)) = Inr (py_round (r * 100))" for r
    using G by (simp add: call_helper_Num mangle_Pad)
  show ?thesis
    by (simp add: Pad_pcb_repr_def Pad_segment_resolved [OF assms(1-4)] Pad_clearance_def call)
qed


section \<open>Claims about pads\<close>

text \<open>
  C7. A pad constructed from \<^verbatim>\<open>left, width, top, height\<close> reads back
  \<^verbatim>\<open>right = left + width\<close>, \<^verbatim>\<open>bottom = top + height\<close>, \<^verbatim>\<open>x\<close> and \<^verbatim>\<open>y\<close> the midpoints of
  \<^verbatim>\<open>(left, right)\<close> and \<^verbatim>\<open>(top, bottom)\<close>; setting \<^verbatim>\<open>x\<close> to any value afterwards succeeds,
  keeps \<^verbatim>\<open>width\<close> and moves \<^verbatim>\<open>left\<close> and \<^verbatim>\<open>right\<close> by one and the same amount \<open>d\<close>, after which
  \<^verbatim>\<open>x\<close> reads as the value set.
\<close>

theorem Pad_derived_attributes:
  assumes "kw_left kw = Some l" "kw_width kw = Some w" "kw_top kw = Some t" "kw_height kw = Some h"
    and "kw_right kw = None" "kw_x kw = None" "kw_bottom kw = None" "kw_y kw = None"
  shows "\<exists>p. Pad_init None kw = Inr p
           \<and> Pad_right p = Inr (Num (l + w))
           \<and> Pad_bottom p = Inr (Num (t + h))
           \<and> Pad_x p = Inr (Num ((l + (l + w)) / 2))
           \<and> Pad_y p = Inr (Num ((t + (t + h)) / 2))
           \<and> (\<forall>v. \<exists>p' d. Pad_set_x p (Num v) = Inr p'
                  \<and> pad_width p' = Some (Num w)
                  \<and> pad_left p' = Some (Num (l + d))
                  \<and> Pad_right p' = Inr (Num (l + w + d))
                  \<and> Pad_x p' = Inr (Num v))"
proof -
  let ?p = "(plain_pad l w t h)
           \<lparr>pad_name := (case kw_name kw of None \<Rightarrow> '''' | Some n \<Rightarrow> n),
            pad_number := (case kw_number kw of None \<Rightarrow> IdStr '''' | Some n \<Rightarrow> n),
            pad_round := (case kw_round kw of None \<Rightarrow> False | Some r \<Rightarrow> r)\<rparr>"
  have init: "Pad_init None kw = Inr ?p"
    using assms by (rule Pad_init_plain)
  have fields: "pad_left ?p = Some (Num l)" "pad_width ?p = Some (Num w)"
    "pad_top ?p = Some (Num t)" "pad_height ?p = Some (Num h)"
    by (simp_all add: plain_pad_def)
  have r: "Pad_right ?p = Inr (Num (l + w))"
    using fields(1,2) by (rule Pad_right_resolved)
  have b: "Pad_bottom ?p = Inr (Num (t + h))"
    using fields(3,4) by (rule Pad_bottom_resolved)
  have x: "Pad_x ?p = Inr (Num ((l + (l + w)) / 2))"
    using Pad_x_resolved [OF fields(1,2)] by (simp add: field_simps)
  have y: "Pad_y ?p = Inr (Num ((t + (t + h)) / 2))"
    using Pad_y_resolved [OF fields(3,4)] by (simp add: field_simps)
  have sx: "\<exists>p' d. Pad_set_x ?p (Num v) = Inr p'
                  \<and> pad_width p' = Some (Num w)
                  \<and> pad_left p' = Some (Num (l + d))
                  \<and> Pad_right p' = Inr (Num (l + w + d))
                  \<and> Pad_x p' = Inr (Num v)" for v
  proof -
    let ?q = "?p\<lparr>pad_left := Some (Num (v - w / 2))\<rparr>"
    have q: "pad_left ?q = Some (Num (v - w / 2))" "pad_width ?q = Some (Num w)"
      by (simp_all add: plain_pad_def)
    have "Pad_set_x ?p (Num v) = Inr ?q"
      using fields(2) by (rule Pad_set_x_resolved)
    moreover have "pad_left ?q = Some (Num (l + (v - w / 2 - l)))"
      using q(1) by simp
    moreover have "Pad_right ?q = Inr (Num (l + w + (v - w / 2 - l)))"
      using Pad_right_resolved [OF q] by (simp add: algebra_simps)
    moreover have "Pad_x ?q = Inr (Num v)"
      using Pad_x_resolved [OF q] by simp
    ultimately show ?thesis using q(2) by blast
  qed
  from init r b x y sx show ?thesis by blast
qed

theorem Pad_derived_attributes_witness:
  "\<exists>p. Pad_init None (no_kwargs\<lparr>kw_left := Some 1, kw_width := Some 4, kw_top := Some 2, kw_height := Some 6\<rparr>) = Inr p
      \<and> Pad_right p = Inr (Num 5) \<and> Pad_bottom p = Inr (Num 8)
      \<and> Pad_x p = Inr (Num 3) \<and> Pad_y p = Inr (Num 5)
      \<and> (\<forall>v. \<exists>p' d. Pad_set_x p (Num v) = Inr p' \<and> pad_width p' = Some (Num 4)
             \<and> pad_left p' = Some (Num (1 + d)) \<and> Pad_right p' = Inr (Num (5 + d))
             \<and> Pad_x p' = Inr (Num v))"
  using Pad_derived_attributes
    [of "no_kwargs\<lparr>kw_left := Some 1, kw_width := Some 4, kw_top := Some 2, kw_height := Some 6\<rparr>" 1 4 2 6]
  by (simp add: no_kwargs_def)

text \<open>
  C3. The source: \<^verbatim>\<open>Pad(left=0, right=10, top=0, height=5)\<close>, a pad without a base given
  \<^verbatim>\<open>left\<close> and \<^verbatim>\<open>right\<close> and no \<^verbatim>\<open>width\<close>, does not construct: the setter of \<^verbatim>\<open>right\<close> reads
  \<^verbatim>\<open>self.width\<close>, which no statement has assigned, and raises \<^verbatim>\<open>AttributeError\<close>.
\<close>

theorem Pad_left_right_raises:
  "Pad_init None (no_kwargs\<lparr>kw_left := Some 0, kw_right := Some 10, kw_top := Some 0, kw_height := Some 5\<rparr>)
     = Inl AttributeError"
  by (simp add: Pad_init_def Pad_apply_kwargs_def Pad_blank_def Pad_set_right_def no_kwargs_def)

text \<open>The same for every call without a base that passes \<^verbatim>\<open>right\<close> and no \<^verbatim>\<open>width\<close>.\<close>

lemma Pad_right_without_width:
  assumes "kw_width kw = None" "kw_right kw = Some r"
  shows "Pad_init None kw = Inl AttributeError"
  using assms
  by (simp add: Pad_init_def Pad_apply_kwargs_def Pad_blank_def Pad_set_right_def set_if_given_plain
      split: option.splits)

text \<open>With a base whose \<^verbatim>\<open>width\<close> reads as \<^verbatim>\<open>None\<close> the second branch of the setter is reached
  and \<^verbatim>\<open>width\<close> becomes \<^verbatim>\<open>right - left\<close>.\<close>

lemma Pad_left_right_with_blank_base:
  "Pad_init (Some Pad_blank) (no_kwargs\<lparr>kw_left := Some 0, kw_right := Some 10\<rparr>) =
     Inr (Pad_blank\<lparr>pad_left := Some (Num 0), pad_width := Some (Num 10),
            pad_top := Some PyNone, pad_height := Some PyNone\<rparr>)"
  by (simp add: Pad_init_def Pad_apply_kwargs_def Pad_blank_def Pad_inherit_def Pad_set_right_def
      no_kwargs_def)

text \<open>
  C8. For a pad whose \<^verbatim>\<open>left, width, top, height\<close> are numbers, \<^verbatim>\<open>pcb_repr\<close> takes the
  horizontal branch exactly when \<^verbatim>\<open>width > height\<close> (the segment runs along \<^verbatim>\<open>y\<close> with
  thickness \<^verbatim>\<open>height\<close>) and the vertical branch otherwise (thickness \<^verbatim>\<open>width\<close>); when
  \<^verbatim>\<open>width = height\<close> both endpoints have the pad's centre \<^verbatim>\<open>x\<close>. Where the conversion helper
  resolves, the first and third field of the record are then equal as well.
\<close>

theorem Pad_orientation:
  assumes "pad_left p = Some (Num l)" "pad_width p = Some (Num w)"
    "pad_top p = Some (Num t)" "pad_height p = Some (Num h)"
  shows "Pad_segment p =
           Inr (if h < w
                then (Num (l + h / 2), Num (t + h / 2), Num (l + w - h / 2), Num (t + h / 2), Num h)
                else (Num (l + w / 2), Num (t + w / 2), Num (l + w / 2), Num (t + h - w / 2), Num w))
         \<and> Pad_x p = Inr (Num (l + w / 2)) \<and> Pad_y p = Inr (Num (t + h / 2))
         \<and> (w = h \<longrightarrow> (\<exists>cx y1 y2. Pad_x p = Inr cx \<and> Pad_segment p = Inr (cx, y1, cx, y2, Num w)))
         \<and> (w = h \<and> G ''_Pad__mil_to_unit'' = Some (Func mil_to_unit) \<longrightarrow>
              (\<exists>fx f2 f4 f6 f7 fl. Pad_pcb_repr G p (Num tx) (Num ty)
                  = Inr (PadRec fx f2 fx f4 (py_round (w * 100)) f6 f7 (pad_name p) (pad_number p) fl)))"
proof -
  note seg = Pad_segment_resolved [OF assms]
  note cx = Pad_x_resolved [OF assms(1,2)]
  note cy = Pad_y_resolved [OF assms(3,4)]
  have tie: "\<exists>cx y1 y2. Pad_x p = Inr cx \<and> Pad_segment p = Inr (cx, y1, cx, y2, Num w)" if "w = h"
    using seg cx that by simp
  have rec: "\<exists>fx f2 f4 f6 f7 fl. Pad_pcb_repr G p (Num tx) (Num ty)
                  = Inr (PadRec fx f2 fx f4 (py_round (w * 100)) f6 f7 (pad_name p) (pad_number p) fl)"
    if "w = h" and G: "G ''_Pad__mil_to_unit'' = Some (Func mil_to_unit)"
    using Pad_pcb_repr_resolved [of p l w t h G tx ty] assms G that(1) by simp
  from seg cx cy tie rec show ?thesis by blast
qed

theorem Pad_orientation_witness:
  "Pad_segment (plain_pad 0 2 0 2) = Inr (Num 1, Num 1, Num 1, Num 1, Num 2)
   \<and> Pad_x (plain_pad 0 2 0 2) = Inr (Num 1)
   \<and> (\<exists>fx f2 f4 f6 f7 fl. Pad_pcb_repr rebound_globals (plain_pad 0 2 0 2) (Num 0) (Num 0)
          = Inr (PadRec fx f2 fx f4 (py_round 200) f6 f7 '''' (IdStr '''') fl))"
  using Pad_orientation [of "plain_pad 0 2 0 2" 0 2 0 2 rebound_globals 0 0]
  by (simp add: plain_pad_def rebound_Pad)

text \<open>
  C9. The source: under the module's own namespace neither \<^verbatim>\<open>Pad.pcb_repr\<close> nor
  \<^verbatim>\<open>Pin.pcb_repr\<close> returns a record. The helper is written \<^verbatim>\<open>__mil_to_unit\<close> inside the
  class bodies, which resolves to \<^verbatim>\<open>_Pad__mil_to_unit\<close> and \<^verbatim>\<open>_Pin__mil_to_unit\<close>; the module
  binds neither, so evaluating the first format argument raises \<^verbatim>\<open>NameError\<close> and no flags
  field is produced, for a square pad and a square pin alike.
\<close>

theorem pcb_repr_raises_NameError:
  "Pad_pcb_repr footprint_globals (plain_pad 0 2 0 1) (Num 0) (Num 0) = Inl NameError
   \<and> Pin_pcb_repr footprint_globals
        \<lparr>pin_name = '''', pin_number = IdInt 1, pin_round = False, pin_x = Some (Num 0),
         pin_y = Some (Num 0), pin_hole = Some (Num 1), pin_diameter = Some (Num 2)\<rparr>
        (Num 0) (Num 0) = Inl NameError"
  by (simp add: Pad_pcb_repr_def Pad_segment_resolved [of _ 0 2 0 1] plain_pad_def Pad_clearance_def
      call_global_def mangle_Pad unbound_Pad Pin_pcb_repr_NameError)

text \<open>
  What the flag expressions compute in any namespace in which the method returns a record.
  For a pin that also takes a binding of \<^verbatim>\<open>_Pin__self\<close>: binding the helper alone is not
  enough (\<open>Pin_pcb_repr_rebound\<close>).
\<close>

lemma Pad_flags_when_helper_resolves:
  assumes "Pad_pcb_repr G p tx ty = Inr (PadRec f1 f2 f3 f4 f5 f6 f7 nm num flags)"
  shows "flags = (if pad_round p then 0 else 0x100)"
  using assms
  by (auto simp: Pad_pcb_repr_def andthen_eq_Inr)

lemma Pin_flags_when_names_resolve:
  assumes "Pin_pcb_repr G p tx ty = Inr (PinRec f1 f2 f3 f4 f5 f6 nm num flags)"
  shows "flags = (if pin_round p then 0x1 else 0x101)"
  using assms
  by (auto simp: Pin_pcb_repr_def andthen_eq_Inr)

section \<open>Claims about silkscreen shapes\<close>

text \<open>
  C10. An arc constructed without \<^verbatim>\<open>start_angle\<close> and \<^verbatim>\<open>delta_angle\<close> has
  \<^verbatim>\<open>start_angle = 0\<close> and \<^verbatim>\<open>delta_angle = 360\<close>, whichever of \<^verbatim>\<open>x_radius\<close>, \<^verbatim>\<open>y_radius\<close>,
  \<^verbatim>\<open>radius\<close> and \<^verbatim>\<open>diameter\<close> were passed.
\<close>

theorem SilkArc_default_angles:
  assumes "akw_start_angle kw = None" "akw_delta_angle kw = None"
  shows "start_angle (SilkArc_init x y kw) = 0 \<and> delta_angle (SilkArc_init x y kw) = 360"
  using assms
  by (simp add: SilkArc_init_def SilkArc_set_radius_def SilkArc_set_diameter_def Let_def
      split: option.splits)

theorem SilkArc_default_angles_witness:
  "start_angle (SilkArc_init 0 0 \<lparr>akw_x_radius = None, akw_y_radius = None, akw_start_angle = None,
      akw_delta_angle = None, akw_thickness = None, akw_radius = None, akw_diameter = Some 400\<rparr>) = 0
   \<and> delta_angle (SilkArc_init 0 0 \<lparr>akw_x_radius = None, akw_y_radius = None, akw_start_angle = None,
      akw_delta_angle = None, akw_thickness = None, akw_radius = None, akw_diameter = Some 400\<rparr>) = 360"
  using SilkArc_default_angles [of "\<lparr>akw_x_radius = None, akw_y_radius = None, akw_start_angle = None,
      akw_delta_angle = None, akw_thickness = None, akw_radius = None, akw_diameter = Some 400\<rparr>" 0 0]
  by simp

section \<open>Polylines\<close>

lemma polyline_loop_from_point:
  "polyline_loop th pts segs (Some lp) =
     (segs @ map (\<lambda>((x1, y1), (x2, y2)). SilkLine_init x1 y1 x2 y2 (Some th)) (zip (lp # pts) pts),
      Some (last (lp # pts)))"
proof (induction pts arbitrary: segs lp)
  case Nil
  then show ?case by simp
next
  case (Cons p pts)
  obtain x y where p: "p = (x, y)" by (cases p)
  obtain lx ly where lp: "lp = (lx, ly)" by (cases lp)
  show ?case by (simp add: p lp Cons.IH)
qed

lemma polyline_loop_start:
  "polyline_loop th (p # pts) [] None =
     (map (\<lambda>((x1, y1), (x2, y2)). SilkLine_init x1 y1 x2 y2 (Some th)) (zip (p # pts) pts),
      Some (last (p # pts)))"
proof -
  obtain x y where p: "p = (x, y)" by (cases p)
  show ?thesis by (simp add: p polyline_loop_from_point)
qed

lemma SilkPolyline_init_open:
  "SilkPolyline_init (p # pts) thickness False =
     Inr \<lparr>segments = map (\<lambda>((x1, y1), (x2, y2)). SilkLine_init x1 y1 x2 y2
              (Some (case thickness of None \<Rightarrow> default_thickness | Some t \<Rightarrow> t))) (zip (p # pts) pts)\<rparr>"
  by (simp add: SilkPolyline_init_def polyline_loop_start)

lemma SilkPolyline_init_closed:
  "SilkPolyline_init (p # q # pts) thickness True =
     Inr \<lparr>segments = map (\<lambda>((x1, y1), (x2, y2)). SilkLine_init x1 y1 x2 y2
              (Some (case thickness of None \<Rightarrow> default_thickness | Some t \<Rightarrow> t))) (zip (p # q # pts) (q # pts))
            @ [SilkLine_init (fst (last (q # pts))) (snd (last (q # pts))) (fst p) (snd p)
                (Some (case thickness of None \<Rightarrow> default_thickness | Some t \<Rightarrow> t))]\<rparr>"
proof -
  obtain x y where p: "p = (x, y)" by (cases p)
  obtain x' y' where q: "q = (x', y')" by (cases q)
  obtain lx ly where l: "last (q # pts) = (lx, ly)" by (cases "last (q # pts)")
  show ?thesis
    using l by (simp add: SilkPolyline_init_def polyline_loop_start p q SilkLine_init_def Let_def)
qed


lemma SilkPolyline_init_few_open:
  "length pts < 2 \<Longrightarrow> SilkPolyline_init pts thickness False = Inr \<lparr>segments = []\<rparr>"
proof (cases pts)
  case Nil
  then show ?thesis by (simp add: SilkPolyline_init_def)
next
  case (Cons p rest)
  assume "length pts < 2"
  with Cons have "rest = []" by simp
  with Cons show ?thesis by (simp add: SilkPolyline_init_open)
qed

lemma SilkPolyline_init_none_closed: "SilkPolyline_init [] thickness True = Inl TypeError"
  by (simp add: SilkPolyline_init_def)

lemma SilkPolyline_init_one_closed: "SilkPolyline_init [p] thickness True = Inl IndexError"
  by (cases p) (simp add: SilkPolyline_init_def)

text \<open>
  C4, as the code has it. With two or more points the constructor succeeds: segment \<open>i\<close>
  joins point \<open>i\<close> to point \<open>i + 1\<close>, \<^verbatim>\<open>closed=True\<close> adds one segment from the last point to
  the first, and all segments have the one thickness. With fewer than two points nothing
  is checked: the constructor succeeds with no segments, unless \<^verbatim>\<open>closed=True\<close>, where the
  closing segment fails with \<^verbatim>\<open>TypeError\<close> (no point) or \<^verbatim>\<open>IndexError\<close> (one point).
\<close>

theorem SilkPolyline_segments:
  fixes pts :: "(real \<times> real) list"
  defines "n \<equiv> length pts"
  shows "(2 \<le> n \<longrightarrow>
            (\<exists>pl. SilkPolyline_init pts thickness cl = Inr pl
               \<and> length (segments pl) = (if cl then n else n - 1)
               \<and> (\<forall>s \<in> set (segments pl).
                     sl_thickness s = (case thickness of None \<Rightarrow> default_thickness | Some t \<Rightarrow> t))
               \<and> (\<forall>i < n - 1.
                     sl_x1 (segments pl ! i) = fst (pts ! i) \<and> sl_y1 (segments pl ! i) = snd (pts ! i)
                   \<and> sl_x2 (segments pl ! i) = fst (pts ! Suc i) \<and> sl_y2 (segments pl ! i) = snd (pts ! Suc i))
               \<and> (cl \<longrightarrow>
                     sl_x1 (segments pl ! (n - 1)) = fst (last pts) \<and> sl_y1 (segments pl ! (n - 1)) = snd (last pts)
                   \<and> sl_x2 (segments pl ! (n - 1)) = fst (hd pts) \<and> sl_y2 (segments pl ! (n - 1)) = snd (hd pts))))
       \<and> (n < 2 \<and> \<not> cl \<longrightarrow> SilkPolyline_init pts thickness cl = Inr \<lparr>segments = []\<rparr>)
       \<and> (n = 0 \<and> cl \<longrightarrow> SilkPolyline_init pts thickness cl = Inl TypeError)
       \<and> (n = 1 \<and> cl \<longrightarrow> SilkPolyline_init pts thickness cl = Inl IndexError)"
proof (intro conjI impI)
  assume two: "2 \<le> n"
  then obtain p q rest where pts: "pts = p # q # rest"
    unfolding n_def by (cases pts; cases "tl pts") auto
  let ?th = "case thickness of None \<Rightarrow> default_thickness | Some t \<Rightarrow> t"
  let ?mk = "\<lambda>((x1, y1), (x2, y2)). SilkLine_init x1 y1 x2 y2 (Some ?th)"
  let ?chain = "map ?mk (zip pts (tl pts))"
  let ?closing = "SilkLine_init (fst (last pts)) (snd (last pts)) (fst (hd pts)) (snd (hd pts)) (Some ?th)"
  let ?pl = "\<lparr>segments = (if cl then ?chain @ [?closing] else ?chain)\<rparr>"
  have len: "length ?chain = n - 1"
    by (simp add: n_def)
  have init: "SilkPolyline_init pts thickness cl = Inr ?pl"
  proof (cases cl)
    case True
    then show ?thesis using SilkPolyline_init_closed [of p q rest thickness] by (simp add: pts)
  next
    case False
    then show ?thesis using SilkPolyline_init_open [of p "q # rest" thickness] by (simp add: pts)
  qed
  have chain_nth: "sl_x1 (?chain ! i) = fst (pts ! i) \<and> sl_y1 (?chain ! i) = snd (pts ! i)
                   \<and> sl_x2 (?chain ! i) = fst (pts ! Suc i) \<and> sl_y2 (?chain ! i) = snd (pts ! Suc i)
                   \<and> sl_thickness (?chain ! i) = ?th" if "i < n - 1" for i
  proof -
    have i: "i < length (zip pts (tl pts))" using that by (simp add: n_def)
    have "i < length pts" "i < length (tl pts)" using that by (simp_all add: n_def)
    then have z: "zip pts (tl pts) ! i = (pts ! i, pts ! Suc i)"
      by (simp add: nth_tl)
    show ?thesis
      by (simp add: nth_map [OF i] z SilkLine_init_def case_prod_beta)
  qed
  have thick: "\<forall>s \<in> set (segments ?pl). sl_thickness s = ?th"
    by (auto simp: SilkLine_init_def)
  have nth_seg: "segments ?pl ! i = ?chain ! i" if "i < n - 1" for i
    using that len by (simp add: nth_append)
  have closing: "segments ?pl ! (n - 1) = ?closing" if cl
    using that len by (simp add: nth_append)
  show "\<exists>pl. SilkPolyline_init pts thickness cl = Inr pl
               \<and> length (segments pl) = (if cl then n else n - 1)
               \<and> (\<forall>s \<in> set (segments pl). sl_thickness s = ?th)
               \<and> (\<forall>i < n - 1.
                     sl_x1 (segments pl ! i) = fst (pts ! i) \<and> sl_y1 (segments pl ! i) = snd (pts ! i)
                   \<and> sl_x2 (segments pl ! i) = fst (pts ! Suc i) \<and> sl_y2 (segments pl ! i) = snd (pts ! Suc i))
               \<and> (cl \<longrightarrow>
                     sl_x1 (segments pl ! (n - 1)) = fst (last pts) \<and> sl_y1 (segments pl ! (n - 1)) = snd (last pts)
                   \<and> sl_x2 (segments pl ! (n - 1)) = fst (hd pts) \<and> sl_y2 (segments pl ! (n - 1)) = snd (hd pts))"
  proof (intro exI [of _ ?pl] conjI allI impI)
    show "SilkPolyline_init pts thickness cl = Inr ?pl" by (rule init)
    show "length (segments ?pl) = (if cl then n else n - 1)" using two len by simp
    show "\<forall>s \<in> set (segments ?pl). sl_thickness s = ?th" by (rule thick)
  next
    fix i assume i: "i < n - 1"
    show "sl_x1 (segments ?pl ! i) = fst (pts ! i)" "sl_y1 (segments ?pl ! i) = snd (pts ! i)"
      "sl_x2 (segments ?pl ! i) = fst (pts ! Suc i)" "sl_y2 (segments ?pl ! i) = snd (pts ! Suc i)"
      using chain_nth [OF i] nth_seg [OF i] by simp_all
  next
    assume cl
    show "sl_x1 (segments ?pl ! (n - 1)) = fst (last pts)" "sl_y1 (segments ?pl ! (n - 1)) = snd (last pts)"
      "sl_x2 (segments ?pl ! (n - 1)) = fst (hd pts)" "sl_y2 (segments ?pl ! (n - 1)) = snd (hd pts)"
      using closing [OF \<open>cl\<close>] by (simp_all add: SilkLine_init_def)
  qed
next
  assume "n < 2 \<and> \<not> cl"
  then show "SilkPolyline_init pts thickness cl = Inr \<lparr>segments = []\<rparr>"
    using SilkPolyline_init_few_open [of pts thickness] by (simp add: n_def)
next
  assume "n = 0 \<and> cl"
  then show "SilkPolyline_init pts thickness cl = Inl TypeError"
    by (simp add: n_def SilkPolyline_init_none_closed)
next
  assume "n = 1 \<and> cl"
  then obtain p where "pts = [p]" "cl"
    unfolding n_def by (cases pts) auto
  then show "SilkPolyline_init pts thickness cl = Inl IndexError"
    by (simp add: SilkPolyline_init_one_closed)
qed

theorem SilkPolyline_one_point_counterexample:
  "SilkPolyline_init [(0, 0)] None False = Inr \<lparr>segments = []\<rparr>"
  by (simp add: SilkPolyline_init_def)


theorem SilkPolyline_segments_witness:
  "(\<exists>pl. SilkPolyline_init [(0, 0), (10, 0), (10, 10)] None True = Inr pl
        \<and> length (segments pl) = 3
        \<and> (\<forall>s \<in> set (segments pl). sl_thickness s = 10)
        \<and> sl_x1 (segments pl ! 2) = 10 \<and> sl_y1 (segments pl ! 2) = 10
        \<and> sl_x2 (segments pl ! 2) = 0 \<and> sl_y2 (segments pl ! 2) = 0)
   \<and> SilkPolyline_init [] None False = Inr \<lparr>segments = []\<rparr>
   \<and> SilkPolyline_init [] None True = Inl TypeError
   \<and> SilkPolyline_init [(1, 2)] None True = Inl IndexError"
proof -
  have a: "2 \<le> length [(0, 0), (10, 0), (10, 10 :: real)] " by simp
  from SilkPolyline_segments [of "[(0, 0), (10, 0), (10, 10)]" None True] a
  obtain pl where "SilkPolyline_init [(0, 0), (10, 0), (10, 10)] None True = Inr pl"
    "length (segments pl) = 3" "\<forall>s \<in> set (segments pl). sl_thickness s = default_thickness"
    "sl_x1 (segments pl ! 2) = 10" "sl_y1 (segments pl ! 2) = 10"
    "sl_x2 (segments pl ! 2) = 0" "sl_y2 (segments pl ! 2) = 0"
    by (auto simp: eval_nat_numeral)
  moreover have "SilkPolyline_init [] None False = Inr \<lparr>segments = []\<rparr>"
    using SilkPolyline_segments [of "[]" None False] by simp
  moreover have "SilkPolyline_init [] None True = Inl TypeError"
    using SilkPolyline_segments [of "[]" None True] by simp
  moreover have "SilkPolyline_init [(1, 2)] None True = Inl IndexError"
    using SilkPolyline_segments [of "[(1, 2)]" None True] by simp
  ultimately show ?thesis by (auto simp: default_thickness_def)
qed

section \<open>Array placement\<close>

lemma number_for_given: "kw_number kw = Some v \<Longrightarrow> number_for fp base kw = kw"
  by (cases base) (simp_all add: number_for_def)

lemma set_if_given_preserves:
  assumes "set_if_given ov setter s = Inr s'"
    and "\<And>s v s'. setter s v = Inr s' \<Longrightarrow> f s' = f s"
  shows "f s' = f s"
  using assms by (cases ov) auto

lemma Pad_setters_keep_number:
  "Pad_set_right s v = Inr s' \<Longrightarrow> pad_number s' = pad_number s"
  "Pad_set_x s v = Inr s' \<Longrightarrow> pad_number s' = pad_number s"
  "Pad_set_bottom s v = Inr s' \<Longrightarrow> pad_number s' = pad_number s"
  "Pad_set_y s v = Inr s' \<Longrightarrow> pad_number s' = pad_number s"
  by (auto simp: Pad_set_right_def Pad_set_x_def Pad_set_bottom_def Pad_set_y_def andthen_eq_Inr
      split: if_splits)

lemma Pad_init_number:
  assumes "Pad_init base kw = Inr p" "kw_number kw = Some v"
  shows "pad_number p = v"
proof -
  from assms obtain s7 s8 s9 s10 where
    steps: "set_if_given (kw_right kw) (\<lambda>s v. Pad_set_right s (Num v)) s7 = Inr s8"
      "set_if_given (kw_x kw) (\<lambda>s v. Pad_set_x s (Num v)) s8 = Inr s9"
      "set_if_given (kw_bottom kw) (\<lambda>s v. Pad_set_bottom s (Num v)) s9 = Inr s10"
      "set_if_given (kw_y kw) (\<lambda>s v. Pad_set_y s (Num v)) s10 = Inr p"
    and s7: "pad_number s7 = v"
    by (auto simp: Pad_init_def Pad_apply_kwargs_def set_if_given_plain andthen_eq_Inr
        split: option.splits)
  have "pad_number s8 = pad_number s7"
    using steps(1) by (rule set_if_given_preserves) (rule Pad_setters_keep_number)
  moreover have "pad_number s9 = pad_number s8"
    using steps(2) by (rule set_if_given_preserves) (rule Pad_setters_keep_number)
  moreover have "pad_number s10 = pad_number s9"
    using steps(3) by (rule set_if_given_preserves) (rule Pad_setters_keep_number)
  moreover have "pad_number p = pad_number s10"
    using steps(4) by (rule set_if_given_preserves) (rule Pad_setters_keep_number)
  ultimately show ?thesis using s7 by simp
qed

lemma Pin_init_number: "kw_number kw = Some v \<Longrightarrow> pin_number (Pin_init base kw) = v"
  by (simp add: Pin_init_def Pin_apply_kwargs_def Let_def split: option.splits)

lemma add_pad_step:
  assumes "add_pad fp base kw = Inr (s, fp')" "kw_number kw = Some v"
  shows "pad_number s = v \<and> pinpadcounter fp' = pinpadcounter fp + 1"
  using assms Pad_init_number [of base kw s v]
  by (auto simp: add_pad_def andthen_eq_Inr number_for_given)

lemma add_pin_step:
  assumes "add_pin fp base kw = Inr (s, fp')" "kw_number kw = Some v"
  shows "pin_number s = v \<and> pinpadcounter fp' = pinpadcounter fp + 1"
  using assms
  by (auto simp: add_pin_def number_for_given Pin_init_number Let_def)

lemma add_shapes_loop_numbers:
  assumes fn: "\<And>fp kw s fp' v. fn fp base kw = Inr (s, fp') \<Longrightarrow> kw_number kw = Some v
                 \<Longrightarrow> num s = v \<and> pinpadcounter fp' = pinpadcounter fp + 1"
    and run: "add_shapes_loop fn base dx dy idxs kw (IdInt n) added fp = Inr (res, fp')"
  shows "\<exists>new. res = added @ new
           \<and> map num new = map (\<lambda>i. IdInt (n + int i)) [0 ..< length idxs]
           \<and> pinpadcounter fp' = pinpadcounter fp + int (length idxs)"
  using run
proof (induction idxs arbitrary: kw n added fp)
  case Nil
  then show ?case by simp
next
  case (Cons i rest)
  from Cons.prems obtain s fp1 x' y' where
    first: "fn fp base (kw\<lparr>kw_number := Some (IdInt n)\<rparr>) = Inr (s, fp1)"
    and rest: "add_shapes_loop fn base dx dy rest
                 (kw\<lparr>kw_number := Some (IdInt n), kw_x := Some x', kw_y := Some y'\<rparr>)
                 (IdInt (n + 1)) (added @ [s]) fp1 = Inr (res, fp')"
    by (auto simp: andthen_eq_Inr)
  from fn [OF first] have s: "num s = IdInt n" and c1: "pinpadcounter fp1 = pinpadcounter fp + 1"
    by simp_all
  from Cons.IH [OF rest] obtain new where
    new: "res = (added @ [s]) @ new"
      "map num new = map (\<lambda>i. IdInt (n + 1 + int i)) [0 ..< length rest]"
      "pinpadcounter fp' = pinpadcounter fp1 + int (length rest)"
    by blast
  have "map num (s # new) = map (\<lambda>i. IdInt (n + int i)) [0 ..< length (i # rest)]"
    using s new(2) by (simp add: map_upt_Suc del: upt_Suc add: algebra_simps)
  moreover have "res = added @ (s # new)" using new(1) by simp
  moreover have "pinpadcounter fp' = pinpadcounter fp + int (length (i # rest))"
    using new(3) c1 by simp
  ultimately show ?case by blast
qed


lemma add_pads_from_7:
  "add_pads (Footprint_init ''F'' None) 3 None
     (no_kwargs\<lparr>kw_number := Some (IdInt 7), kw_x := Some 0, kw_y := Some 0,
                kw_dx := Some (Scalar 1), kw_width := Some 1, kw_height := Some 1\<rparr>)
   = Inr ([(plain_pad (- 1 / 2) 1 (- 1 / 2) 1)\<lparr>pad_number := IdInt 7\<rparr>,
           (plain_pad (1 / 2) 1 (- 1 / 2) 1)\<lparr>pad_number := IdInt 8\<rparr>,
           (plain_pad (3 / 2) 1 (- 1 / 2) 1)\<lparr>pad_number := IdInt 9\<rparr>],
          (Footprint_init ''F'' None)
            \<lparr>shapes := [PadS ((plain_pad (- 1 / 2) 1 (- 1 / 2) 1)\<lparr>pad_number := IdInt 7\<rparr>),
                        PadS ((plain_pad (1 / 2) 1 (- 1 / 2) 1)\<lparr>pad_number := IdInt 8\<rparr>),
                        PadS ((plain_pad (3 / 2) 1 (- 1 / 2) 1)\<lparr>pad_number := IdInt 9\<rparr>)],
              pinpadcounter := 4\<rparr>)"
  by (simp add: add_pads_def add_shapes_def add_pad_def number_for_def Pad_init_def
      Pad_apply_kwargs_def Pad_blank_def Pad_set_x_def Pad_set_y_def advance_def
      no_kwargs_def Footprint_init_def plain_pad_def eval_nat_numeral upt_rec Let_def)

text \<open>
  C1, as the code has it. \<^verbatim>\<open>__add_shapes\<close> starts from the explicit number and executes
  \<^verbatim>\<open>number += 1\<close> after every placement, so an array placed with the integer \<open>n\<close> carries
  \<open>n, n + 1, \<dots>, n + count - 1\<close>; it does not repeat \<open>n\<close>. The counter of the footprint goes up
  by one per placed shape. This holds for pads and for pins, whenever the call returns.
\<close>

theorem array_numbers_count_up:
  assumes "kw_number kw = Some (IdInt n)"
  shows "(add_pads fp count base kw = Inr (pads, fp') \<longrightarrow>
            map pad_number pads = map (\<lambda>i. IdInt (n + int i)) [0 ..< nat count]
          \<and> pinpadcounter fp' = pinpadcounter fp + int (nat count))
       \<and> (add_pins fp count base' kw = Inr (pins, fp'') \<longrightarrow>
            map pin_number pins = map (\<lambda>i. IdInt (n + int i)) [0 ..< nat count]
          \<and> pinpadcounter fp'' = pinpadcounter fp + int (nat count))"
proof (intro conjI impI)
  assume "add_pads fp count base kw = Inr (pads, fp')"
  then have run: "add_shapes_loop add_pad base
      (case kw_dx kw of None \<Rightarrow> Scalar 0 | Some d \<Rightarrow> d) (case kw_dy kw of None \<Rightarrow> Scalar 0 | Some d \<Rightarrow> d)
      [0 ..< nat count] kw (IdInt n) [] fp = Inr (pads, fp')"
    using assms by (simp add: add_pads_def add_shapes_def)
  from add_shapes_loop_numbers [where num = pad_number, OF add_pad_step run]
  show "map pad_number pads = map (\<lambda>i. IdInt (n + int i)) [0 ..< nat count]"
    and "pinpadcounter fp' = pinpadcounter fp + int (nat count)"
    by auto
next
  assume "add_pins fp count base' kw = Inr (pins, fp'')"
  then have run: "add_shapes_loop add_pin base'
      (case kw_dx kw of None \<Rightarrow> Scalar 0 | Some d \<Rightarrow> d) (case kw_dy kw of None \<Rightarrow> Scalar 0 | Some d \<Rightarrow> d)
      [0 ..< nat count] kw (IdInt n) [] fp = Inr (pins, fp'')"
    using assms by (simp add: add_pins_def add_shapes_def)
  from add_shapes_loop_numbers [where num = pin_number, OF add_pin_step run]
  show "map pin_number pins = map (\<lambda>i. IdInt (n + int i)) [0 ..< nat count]"
    and "pinpadcounter fp'' = pinpadcounter fp + int (nat count)"
    by auto
qed

theorem array_same_number_counterexample:
  "map_sum id (map pad_number \<circ> fst)
     (add_pads (Footprint_init ''F'' None) 3 None
        (no_kwargs\<lparr>kw_number := Some (IdInt 7), kw_x := Some 0, kw_y := Some 0,
                   kw_dx := Some (Scalar 1), kw_width := Some 1, kw_height := Some 1\<rparr>))
   = Inr [IdInt 7, IdInt 8, IdInt 9]"
  by (simp add: add_pads_from_7)


lemma step_at_valid: "d \<noteq> Tuple [] \<Longrightarrow> step_at d i = Inr (projr (step_at d i))"
  by (cases d) auto

lemma step_at_pair: "step_at (Tuple [a, b]) i = Inr (if even i then a else b)"
proof -
  have eq: "step_at (Tuple [a, b]) i = Inr ([a, b] ! (i mod 2))"
    by (simp add: numeral_2_eq_2)
  show ?thesis
  proof (cases "even i")
    case True
    then have "i mod 2 = 0" by presburger
    then show ?thesis unfolding eq using True by simp
  next
    case False
    then have "i mod 2 = 1" by presburger
    then show ?thesis unfolding eq using False by simp
  qed
qed

lemma sum_shift_start:
  fixes f :: "nat \<Rightarrow> real"
  shows "(\<Sum>j<Suc i. f (k + j)) = f k + (\<Sum>j<i. f (Suc k + j))"
  by (simp add: sum.lessThan_Suc_shift del: sum.lessThan_Suc)

lemma advance_valid:
  "d \<noteq> Tuple [] \<Longrightarrow> advance (Some v) d i = Inr (v + projr (step_at d i))"
  by (cases d) (auto simp: advance_def)

lemma kwargs_same_xy:
  "kw_x kw = Some x \<Longrightarrow> kw_y kw = Some y \<Longrightarrow> kw\<lparr>kw_x := Some x, kw_y := Some y\<rparr> = kw"
  by (cases kw) simp

lemma add_pins_loop_explicit:
  assumes dx: "dx \<noteq> Tuple []" and dy: "dy \<noteq> Tuple []"
  shows "kw_x kw = Some x \<Longrightarrow> kw_y kw = Some y \<Longrightarrow>
     add_shapes_loop add_pin base dx dy [k ..< k + m] kw (IdInt n) added fp =
       Inr (added @ map (\<lambda>i. Pin_init base (kw\<lparr>kw_number := Some (IdInt (n + int i)),
                                kw_x := Some (x + (\<Sum>j<i. projr (step_at dx (k + j)))),
                                kw_y := Some (y + (\<Sum>j<i. projr (step_at dy (k + j))))\<rparr>)) [0 ..< m],
            fp\<lparr>shapes := shapes fp @ map (\<lambda>i. PinS (Pin_init base (kw\<lparr>kw_number := Some (IdInt (n + int i)),
                                kw_x := Some (x + (\<Sum>j<i. projr (step_at dx (k + j)))),
                                kw_y := Some (y + (\<Sum>j<i. projr (step_at dy (k + j))))\<rparr>))) [0 ..< m],
               pinpadcounter := pinpadcounter fp + int m\<rparr>)"
proof (induction m arbitrary: k kw n added fp x y)
  case 0
  then show ?case by simp
next
  case (Suc m)
  let ?kw0 = "kw\<lparr>kw_number := Some (IdInt n)\<rparr>"
  let ?p0 = "Pin_init base ?kw0"
  let ?x' = "x + projr (step_at dx k)"
  let ?y' = "y + projr (step_at dy k)"
  let ?kw' = "kw\<lparr>kw_number := Some (IdInt n), kw_x := Some ?x', kw_y := Some ?y'\<rparr>"
  let ?fp1 = "fp\<lparr>shapes := shapes fp @ [PinS ?p0], pinpadcounter := pinpadcounter fp + 1\<rparr>"
  have idx: "[k ..< k + Suc m] = k # [Suc k ..< Suc k + m]"
    by (simp add: upt_conv_Cons)
  have first: "add_pin fp base ?kw0 = Inr (?p0, ?fp1)"
    by (simp add: add_pin_def number_for_given Let_def)
  have unfold: "add_shapes_loop add_pin base dx dy [k ..< k + Suc m] kw (IdInt n) added fp =
      add_shapes_loop add_pin base dx dy [Suc k ..< Suc k + m] ?kw' (IdInt (n + 1)) (added @ [?p0]) ?fp1"
    by (simp only: idx add_shapes_loop.simps first andthen.simps prod.case Suc.prems
        advance_valid [OF dx] advance_valid [OF dy] id_incr.simps)
  have p0: "?p0 = Pin_init base (kw\<lparr>kw_number := Some (IdInt (n + int 0)),
                                kw_x := Some (x + (\<Sum>j<0. projr (step_at dx (k + j)))),
                                kw_y := Some (y + (\<Sum>j<0. projr (step_at dy (k + j))))\<rparr>)"
    using Suc.prems by (simp add: Pin_init_def Pin_apply_kwargs_def)
  have IH: "add_shapes_loop add_pin base dx dy [Suc k ..< Suc k + m] ?kw' (IdInt (n + 1)) (added @ [?p0]) ?fp1 =
       Inr ((added @ [?p0]) @ map (\<lambda>i. Pin_init base (?kw'\<lparr>kw_number := Some (IdInt (n + 1 + int i)),
                                kw_x := Some (?x' + (\<Sum>j<i. projr (step_at dx (Suc k + j)))),
                                kw_y := Some (?y' + (\<Sum>j<i. projr (step_at dy (Suc k + j))))\<rparr>)) [0 ..< m],
            ?fp1\<lparr>shapes := shapes ?fp1 @ map (\<lambda>i. PinS (Pin_init base (?kw'\<lparr>kw_number := Some (IdInt (n + 1 + int i)),
                                kw_x := Some (?x' + (\<Sum>j<i. projr (step_at dx (Suc k + j)))),
                                kw_y := Some (?y' + (\<Sum>j<i. projr (step_at dy (Suc k + j))))\<rparr>))) [0 ..< m],
               pinpadcounter := pinpadcounter ?fp1 + int m\<rparr>)"
    by (rule Suc.IH) simp_all
  show ?case
    unfolding unfold IH
    by (simp add: map_upt_Suc p0 add.assoc
        sum_shift_start [of "\<lambda>j. projr (step_at dx j)"] sum_shift_start [of "\<lambda>j. projr (step_at dy j)"]
        del: upt_Suc sum.lessThan_Suc)
qed


lemma Pin_init_xy:
  "kw_x kw = Some x \<Longrightarrow> pin_x (Pin_init base kw) = Some (Num x)"
  "kw_y kw = Some y \<Longrightarrow> pin_y (Pin_init base kw) = Some (Num y)"
  by (simp_all add: Pin_init_def Pin_apply_kwargs_def Let_def split: option.splits)

lemma add_pins_explicit:
  assumes "kw_x kw = Some x" "kw_y kw = Some y"
    and "kw_dx kw \<noteq> Some (Tuple [])" "kw_dy kw \<noteq> Some (Tuple [])"
    and start: "(case kw_number kw of None \<Rightarrow> IdInt (pinpadcounter fp) | Some v \<Rightarrow> v) = IdInt n"
  shows "add_pins fp count base kw =
     Inr (map (\<lambda>i. Pin_init base (kw\<lparr>
              kw_number := Some (IdInt (n + int i)),
              kw_x := Some (x + (\<Sum>j<i. projr (step_at (case kw_dx kw of None \<Rightarrow> Scalar 0 | Some d \<Rightarrow> d) j))),
              kw_y := Some (y + (\<Sum>j<i. projr (step_at (case kw_dy kw of None \<Rightarrow> Scalar 0 | Some d \<Rightarrow> d) j)))\<rparr>))
            [0 ..< nat count],
          fp\<lparr>shapes := shapes fp @ map (\<lambda>i. PinS (Pin_init base (kw\<lparr>
              kw_number := Some (IdInt (n + int i)),
              kw_x := Some (x + (\<Sum>j<i. projr (step_at (case kw_dx kw of None \<Rightarrow> Scalar 0 | Some d \<Rightarrow> d) j))),
              kw_y := Some (y + (\<Sum>j<i. projr (step_at (case kw_dy kw of None \<Rightarrow> Scalar 0 | Some d \<Rightarrow> d) j)))\<rparr>)))
            [0 ..< nat count],
             pinpadcounter := pinpadcounter fp + int (nat count)\<rparr>)"
proof -
  let ?dx = "case kw_dx kw of None \<Rightarrow> Scalar 0 | Some d \<Rightarrow> d"
  let ?dy = "case kw_dy kw of None \<Rightarrow> Scalar 0 | Some d \<Rightarrow> d"
  have dx: "?dx \<noteq> Tuple []" using assms(3) by (cases "kw_dx kw") auto
  have dy: "?dy \<noteq> Tuple []" using assms(4) by (cases "kw_dy kw") auto
  show ?thesis
    using add_pins_loop_explicit [OF dx dy assms(1,2), of base 0 "nat count" n "[]" fp] start
    by (simp add: add_pins_def add_shapes_def)
qed

text \<open>
  C5. \<^verbatim>\<open>add_pins(count, x=x0, y=y0, ...)\<close> without \<^verbatim>\<open>number\<close> returns \<open>count\<close> pins; pin \<open>i\<close>
  carries the counter's value at the call plus \<open>i\<close>; the first pin is at \<open>(x0, y0)\<close> and pin
  \<open>i + 1\<close> is pin \<open>i\<close> moved by the steps \<^verbatim>\<open>dx\<close> and \<^verbatim>\<open>dy\<close> select for index \<open>i\<close>; a 2-element tuple
  selects its first element at even and its second at odd indices. The counter ends \<open>count\<close>
  higher.
\<close>

theorem add_pins_consecutive:
  assumes "kw_number kw = None" "kw_x kw = Some x0" "kw_y kw = Some y0"
    and "kw_dx kw \<noteq> Some (Tuple [])" "kw_dy kw \<noteq> Some (Tuple [])"
  shows "\<exists>pins fp'. add_pins fp count base kw = Inr (pins, fp')
      \<and> length pins = nat count
      \<and> pinpadcounter fp' = pinpadcounter fp + int (nat count)
      \<and> (\<forall>i < nat count. pin_number (pins ! i) = IdInt (pinpadcounter fp + int i))
      \<and> (0 < nat count \<longrightarrow> pin_x (pins ! 0) = Some (Num x0) \<and> pin_y (pins ! 0) = Some (Num y0))
      \<and> (\<forall>i. Suc i < nat count \<longrightarrow>
            (\<exists>xi yi sx sy. pin_x (pins ! i) = Some (Num xi) \<and> pin_y (pins ! i) = Some (Num yi)
               \<and> step_at (case kw_dx kw of None \<Rightarrow> Scalar 0 | Some d \<Rightarrow> d) i = Inr sx
               \<and> step_at (case kw_dy kw of None \<Rightarrow> Scalar 0 | Some d \<Rightarrow> d) i = Inr sy
               \<and> pin_x (pins ! Suc i) = Some (Num (xi + sx))
               \<and> pin_y (pins ! Suc i) = Some (Num (yi + sy))))
      \<and> (\<forall>a b i. step_at (Tuple [a, b]) i = Inr (if even i then a else b))"
proof -
  let ?dx = "case kw_dx kw of None \<Rightarrow> Scalar 0 | Some d \<Rightarrow> d"
  let ?dy = "case kw_dy kw of None \<Rightarrow> Scalar 0 | Some d \<Rightarrow> d"
  let ?c = "pinpadcounter fp"
  let ?X = "\<lambda>i. x0 + (\<Sum>j<i. projr (step_at ?dx j))"
  let ?Y = "\<lambda>i. y0 + (\<Sum>j<i. projr (step_at ?dy j))"
  let ?pin = "\<lambda>i. Pin_init base (kw\<lparr>kw_number := Some (IdInt (?c + int i)),
                 kw_x := Some (?X i), kw_y := Some (?Y i)\<rparr>)"
  let ?pins = "map ?pin [0 ..< nat count]"
  let ?fp' = "fp\<lparr>shapes := shapes fp @ map (\<lambda>i. PinS (?pin i)) [0 ..< nat count],
                 pinpadcounter := ?c + int (nat count)\<rparr>"
  have dx: "?dx \<noteq> Tuple []" using assms(4) by (cases "kw_dx kw") auto
  have dy: "?dy \<noteq> Tuple []" using assms(5) by (cases "kw_dy kw") auto
  have run: "add_pins fp count base kw = Inr (?pins, ?fp')"
    using add_pins_explicit [OF assms(2-5), of fp ?c count base] assms(1) by simp
  have nth: "?pins ! i = ?pin i" if "i < nat count" for i
    using that by simp
  have num: "pin_number (?pin i) = IdInt (?c + int i)" for i
    by (rule Pin_init_number) simp
  have px: "pin_x (?pin i) = Some (Num (?X i))" for i
    by (rule Pin_init_xy) simp
  have py: "pin_y (?pin i) = Some (Num (?Y i))" for i
    by (rule Pin_init_xy) simp
  have numbers: "\<forall>i < nat count. pin_number (?pins ! i) = IdInt (?c + int i)"
    using nth num by simp
  have first: "pin_x (?pins ! 0) = Some (Num x0) \<and> pin_y (?pins ! 0) = Some (Num y0)" if "0 < nat count"
    using nth [OF that] px [of 0] py [of 0] by simp
  have moves: "\<exists>xi yi sx sy. pin_x (?pins ! i) = Some (Num xi) \<and> pin_y (?pins ! i) = Some (Num yi)
               \<and> step_at ?dx i = Inr sx \<and> step_at ?dy i = Inr sy
               \<and> pin_x (?pins ! Suc i) = Some (Num (xi + sx))
               \<and> pin_y (?pins ! Suc i) = Some (Num (yi + sy))" if "Suc i < nat count" for i
  proof -
    have i: "i < nat count" using that by simp
    have "pin_x (?pins ! i) = Some (Num (?X i))" "pin_y (?pins ! i) = Some (Num (?Y i))"
      using nth [OF i] px [of i] py [of i] by simp_all
    moreover have "step_at ?dx i = Inr (projr (step_at ?dx i))" "step_at ?dy i = Inr (projr (step_at ?dy i))"
      using step_at_valid [OF dx] step_at_valid [OF dy] by blast+
    moreover have "pin_x (?pins ! Suc i) = Some (Num (?X i + projr (step_at ?dx i)))"
      "pin_y (?pins ! Suc i) = Some (Num (?Y i + projr (step_at ?dy i)))"
      using nth [OF that] px [of "Suc i"] py [of "Suc i"] by (simp_all add: add.assoc)
    ultimately show ?thesis by blast
  qed
  have len: "length ?pins = nat count" by simp
  have cnt: "pinpadcounter ?fp' = ?c + int (nat count)" by simp
  show ?thesis
  proof (intro exI conjI)
    show "add_pins fp count base kw = Inr (?pins, ?fp')" by (rule run)
    show "length ?pins = nat count" by (rule len)
    show "pinpadcounter ?fp' = ?c + int (nat count)" by (rule cnt)
    show "\<forall>i < nat count. pin_number (?pins ! i) = IdInt (?c + int i)" by (rule numbers)
    show "0 < nat count \<longrightarrow> pin_x (?pins ! 0) = Some (Num x0) \<and> pin_y (?pins ! 0) = Some (Num y0)"
      using first by blast
    show "\<forall>i. Suc i < nat count \<longrightarrow>
            (\<exists>xi yi sx sy. pin_x (?pins ! i) = Some (Num xi) \<and> pin_y (?pins ! i) = Some (Num yi)
               \<and> step_at ?dx i = Inr sx \<and> step_at ?dy i = Inr sy
               \<and> pin_x (?pins ! Suc i) = Some (Num (xi + sx))
               \<and> pin_y (?pins ! Suc i) = Some (Num (yi + sy)))"
      using moves by blast
    show "\<forall>a b i. step_at (Tuple [a, b]) i = Inr (if even i then a else b)"
      using step_at_pair by blast
  qed
qed


lemma add_pins_staggered:
  "add_pins (Footprint_init ''F'' None) 4 None
     (no_kwargs\<lparr>kw_x := Some 0, kw_y := Some 0, kw_dx := Some (Scalar 10),
                kw_dy := Some (Tuple [5, - 5]), kw_hole := Some 1, kw_diameter := Some 2\<rparr>)
   = Inr ([plain_pin 0 0 1 2 1, plain_pin 10 5 1 2 2, plain_pin 20 0 1 2 3, plain_pin 30 5 1 2 4],
          (Footprint_init ''F'' None)
            \<lparr>shapes := [PinS (plain_pin 0 0 1 2 1), PinS (plain_pin 10 5 1 2 2),
                        PinS (plain_pin 20 0 1 2 3), PinS (plain_pin 30 5 1 2 4)],
              pinpadcounter := 5\<rparr>)"
  by (simp add: add_pins_def add_shapes_def add_pin_def number_for_def Pin_init_def
      Pin_apply_kwargs_def Pin_blank_def advance_def no_kwargs_def Footprint_init_def
      plain_pin_def eval_nat_numeral upt_rec Let_def)

theorem add_pins_consecutive_witness:
  "\<exists>pins fp'. add_pins (Footprint_init ''F'' None) 4 None
       (no_kwargs\<lparr>kw_x := Some 0, kw_y := Some 0, kw_dx := Some (Scalar 10),
                  kw_dy := Some (Tuple [5, - 5]), kw_hole := Some 1, kw_diameter := Some 2\<rparr>)
       = Inr (pins, fp')
     \<and> length pins = 4 \<and> pinpadcounter fp' = 5
     \<and> (\<forall>i < 4. pin_number (pins ! i) = IdInt (1 + int i))
     \<and> map pin_x pins = [Some (Num 0), Some (Num 10), Some (Num 20), Some (Num 30)]
     \<and> map pin_y pins = [Some (Num 0), Some (Num 5), Some (Num 0), Some (Num 5)]"
proof -
  let ?kw = "no_kwargs\<lparr>kw_x := Some 0, kw_y := Some 0, kw_dx := Some (Scalar 10),
                  kw_dy := Some (Tuple [5, - 5]), kw_hole := Some 1, kw_diameter := Some 2\<rparr>"
  let ?F = "Footprint_init ''F'' None"
  have hyps: "kw_number ?kw = None" "kw_x ?kw = Some 0" "kw_y ?kw = Some 0"
    "kw_dx ?kw \<noteq> Some (Tuple [])" "kw_dy ?kw \<noteq> Some (Tuple [])"
    by (simp_all add: no_kwargs_def)
  from add_pins_consecutive [OF hyps, of ?F 4 None]
  obtain pins fp' where run: "add_pins ?F 4 None ?kw = Inr (pins, fp')"
    and len: "length pins = nat 4"
    and cnt: "pinpadcounter fp' = pinpadcounter ?F + int (nat 4)"
    and num: "\<forall>i < nat 4. pin_number (pins ! i) = IdInt (pinpadcounter ?F + int i)"
    by blast
  from run have pins: "pins = [plain_pin 0 0 1 2 1, plain_pin 10 5 1 2 2, plain_pin 20 0 1 2 3, plain_pin 30 5 1 2 4]"
    by (simp add: add_pins_staggered)
  have "map pin_x pins = [Some (Num 0), Some (Num 10), Some (Num 20), Some (Num 30)]"
    "map pin_y pins = [Some (Num 0), Some (Num 5), Some (Num 0), Some (Num 5)]"
    by (simp_all add: pins plain_pin_def)
  moreover have "length pins = 4" "pinpadcounter fp' = 5" "\<forall>i < 4. pin_number (pins ! i) = IdInt (1 + int i)"
    using len cnt num by (simp_all add: Footprint_init_def)
  ultimately show ?thesis using run by simp
qed

theorem array_numbers_count_up_witness:
  "(\<exists>pads fp'. add_pads (Footprint_init ''F'' None) 3 None
        (no_kwargs\<lparr>kw_number := Some (IdInt 7), kw_x := Some 0, kw_y := Some 0,
                   kw_dx := Some (Scalar 1), kw_width := Some 1, kw_height := Some 1\<rparr>) = Inr (pads, fp')
      \<and> map pad_number pads = [IdInt 7, IdInt 8, IdInt 9] \<and> pinpadcounter fp' = 4)
   \<and> (\<exists>pins fp'. add_pins (Footprint_init ''F'' None) 3 None
        (no_kwargs\<lparr>kw_number := Some (IdInt 7), kw_x := Some 0, kw_y := Some 0,
                   kw_dx := Some (Scalar 1), kw_width := Some 1, kw_height := Some 1\<rparr>) = Inr (pins, fp')
      \<and> map pin_number pins = [IdInt 7, IdInt 8, IdInt 9] \<and> pinpadcounter fp' = 4)"
proof -
  let ?kw = "no_kwargs\<lparr>kw_number := Some (IdInt 7), kw_x := Some 0, kw_y := Some 0,
                   kw_dx := Some (Scalar 1), kw_width := Some 1, kw_height := Some 1\<rparr>"
  let ?F = "Footprint_init ''F'' None"
  have n: "kw_number ?kw = Some (IdInt 7)" by (simp add: no_kwargs_def)
  have up: "map (\<lambda>i. IdInt (7 + int i)) [0 ..< 3] = [IdInt 7, IdInt 8, IdInt 9]"
    by (simp add: eval_nat_numeral upt_rec)
  obtain pads fp' where pads: "add_pads ?F 3 None ?kw = Inr (pads, fp')"
    using add_pads_from_7 by blast
  have "kw_x ?kw = Some 0" "kw_y ?kw = Some 0" "kw_dx ?kw \<noteq> Some (Tuple [])" "kw_dy ?kw \<noteq> Some (Tuple [])"
    "(case kw_number ?kw of None \<Rightarrow> IdInt (pinpadcounter ?F) | Some v \<Rightarrow> v) = IdInt 7"
    by (simp_all add: no_kwargs_def)
  from add_pins_explicit [OF this, of 3 None]
  obtain pins fp'' where pins: "add_pins ?F 3 None ?kw = Inr (pins, fp'')"
    by blast
  from array_numbers_count_up [OF n, of ?F 3 None pads fp' None pins fp''] pads pins
  have "map pad_number pads = [IdInt 7, IdInt 8, IdInt 9] \<and> pinpadcounter fp' = 4"
    "map pin_number pins = [IdInt 7, IdInt 8, IdInt 9] \<and> pinpadcounter fp'' = 4"
    by (simp_all add: up Footprint_init_def)
  with pads pins show ?thesis by simp
qed

text \<open>An explicit string number cannot be incremented: the call raises after the first placement.\<close>

lemma array_string_number_raises:
  assumes "kw_number kw = Some (IdStr s)" "kw_x kw = Some x" "kw_y kw = Some y"
    and "kw_dx kw \<noteq> Some (Tuple [])" "kw_dy kw \<noteq> Some (Tuple [])" "0 < count"
  shows "add_pins fp count base kw = Inl TypeError"
proof -
  let ?dx = "case kw_dx kw of None \<Rightarrow> Scalar 0 | Some d \<Rightarrow> d"
  let ?dy = "case kw_dy kw of None \<Rightarrow> Scalar 0 | Some d \<Rightarrow> d"
  have dx: "?dx \<noteq> Tuple []" using assms(4) by (cases "kw_dx kw") auto
  have dy: "?dy \<noteq> Tuple []" using assms(5) by (cases "kw_dy kw") auto
  have idx: "[0 ..< nat count] = 0 # [1 ..< nat count]"
    using assms(6) by (simp add: upt_conv_Cons)
  show ?thesis
    by (simp add: add_pins_def add_shapes_def idx assms(1-3) add_pin_def Let_def
        advance_valid [OF dx] advance_valid [OF dy])
qed

section \<open>Inheritance from a base\<close>

lemma Pad_init_plain_keys:
  assumes "kw_right kw = None" "kw_x kw = None" "kw_bottom kw = None" "kw_y kw = None"
  shows "\<exists>p. Pad_init (Some b) kw = Inr p
     \<and> pad_left p = Some (case kw_left kw of None \<Rightarrow> getattr_default (pad_left b) | Some v \<Rightarrow> Num v)
     \<and> pad_width p = Some (case kw_width kw of None \<Rightarrow> getattr_default (pad_width b) | Some v \<Rightarrow> Num v)
     \<and> pad_top p = Some (case kw_top kw of None \<Rightarrow> getattr_default (pad_top b) | Some v \<Rightarrow> Num v)
     \<and> pad_height p = Some (case kw_height kw of None \<Rightarrow> getattr_default (pad_height b) | Some v \<Rightarrow> Num v)
     \<and> pad_number p = (case kw_number kw of None \<Rightarrow> pad_number b | Some v \<Rightarrow> v)
     \<and> pad_name p = (case kw_name kw of None \<Rightarrow> pad_name b | Some v \<Rightarrow> v)
     \<and> pad_round p = (case kw_round kw of None \<Rightarrow> pad_round b | Some v \<Rightarrow> v)"
  using assms
  by (simp add: Pad_init_def Pad_apply_kwargs_def Pad_inherit_def set_if_given_plain
      split: option.splits)

lemma Pin_init_from_base:
  "pin_x (Pin_init (Some b) kw) = Some (case kw_x kw of None \<Rightarrow> getattr_default (pin_x b) | Some v \<Rightarrow> Num v)
   \<and> pin_y (Pin_init (Some b) kw) = Some (case kw_y kw of None \<Rightarrow> getattr_default (pin_y b) | Some v \<Rightarrow> Num v)
   \<and> pin_hole (Pin_init (Some b) kw) = Some (case kw_hole kw of None \<Rightarrow> getattr_default (pin_hole b) | Some v \<Rightarrow> Num v)
   \<and> pin_diameter (Pin_init (Some b) kw) = Some (case kw_diameter kw of None \<Rightarrow> getattr_default (pin_diameter b) | Some v \<Rightarrow> Num v)
   \<and> pin_number (Pin_init (Some b) kw) = (case kw_number kw of None \<Rightarrow> pin_number b | Some v \<Rightarrow> v)
   \<and> pin_name (Pin_init (Some b) kw) = (case kw_name kw of None \<Rightarrow> pin_name b | Some v \<Rightarrow> v)
   \<and> pin_round (Pin_init (Some b) kw) = (case kw_round kw of None \<Rightarrow> pin_round b | Some v \<Rightarrow> v)"
  by (simp add: Pin_init_def Pin_apply_kwargs_def Pin_inherit_def Let_def split: option.splits)

lemma mutate_other: "a \<noteq> d \<Longrightarrow> mutate st a upd ! d = st ! d"
  by (simp add: mutate_def)

text \<open>
  C6, as the code has it. A pad or pin constructed with \<^verbatim>\<open>base=p1\<close> is a new object. Every
  inheritable attribute that the keywords do not pass has the value read from \<open>p1\<close> at
  construction (\<^verbatim>\<open>None\<close> where \<open>p1\<close> lacks it) and every one they pass has the passed value;
  for a pad this is for keywords among the inheritable keys, since \<^verbatim>\<open>right\<close>, \<^verbatim>\<open>x\<close>, \<^verbatim>\<open>bottom\<close>
  and \<^verbatim>\<open>y\<close> go through setters that rewrite \<^verbatim>\<open>left\<close>, \<^verbatim>\<open>top\<close>, \<^verbatim>\<open>width\<close> or \<^verbatim>\<open>height\<close>. No
  later assignment to \<open>p1\<close> changes the new object, nor the other way round.
\<close>

theorem base_is_copied_once:
  assumes "a < length pads" "b < length pins"
    and "kw_right kw = None" "kw_x kw = None" "kw_bottom kw = None" "kw_y kw = None"
  shows "(\<exists>d pads'. Pad_new pads (Some a) kw = Inr (d, pads')
            \<and> d \<noteq> a \<and> d < length pads' \<and> pads' ! a = pads ! a
            \<and> pad_left (pads' ! d) = Some (case kw_left kw of None \<Rightarrow> getattr_default (pad_left (pads ! a)) | Some v \<Rightarrow> Num v)
            \<and> pad_width (pads' ! d) = Some (case kw_width kw of None \<Rightarrow> getattr_default (pad_width (pads ! a)) | Some v \<Rightarrow> Num v)
            \<and> pad_top (pads' ! d) = Some (case kw_top kw of None \<Rightarrow> getattr_default (pad_top (pads ! a)) | Some v \<Rightarrow> Num v)
            \<and> pad_height (pads' ! d) = Some (case kw_height kw of None \<Rightarrow> getattr_default (pad_height (pads ! a)) | Some v \<Rightarrow> Num v)
            \<and> pad_number (pads' ! d) = (case kw_number kw of None \<Rightarrow> pad_number (pads ! a) | Some v \<Rightarrow> v)
            \<and> pad_name (pads' ! d) = (case kw_name kw of None \<Rightarrow> pad_name (pads ! a) | Some v \<Rightarrow> v)
            \<and> pad_round (pads' ! d) = (case kw_round kw of None \<Rightarrow> pad_round (pads ! a) | Some v \<Rightarrow> v)
            \<and> (\<forall>upd. mutate pads' a upd ! d = pads' ! d)
            \<and> (\<forall>upd. mutate pads' d upd ! a = pads' ! a))
       \<and> (\<exists>e pins'. Pin_new pins (Some b) kwp = (e, pins')
            \<and> e \<noteq> b \<and> e < length pins' \<and> pins' ! b = pins ! b
            \<and> pin_x (pins' ! e) = Some (case kw_x kwp of None \<Rightarrow> getattr_default (pin_x (pins ! b)) | Some v \<Rightarrow> Num v)
            \<and> pin_y (pins' ! e) = Some (case kw_y kwp of None \<Rightarrow> getattr_default (pin_y (pins ! b)) | Some v \<Rightarrow> Num v)
            \<and> pin_hole (pins' ! e) = Some (case kw_hole kwp of None \<Rightarrow> getattr_default (pin_hole (pins ! b)) | Some v \<Rightarrow> Num v)
            \<and> pin_diameter (pins' ! e) = Some (case kw_diameter kwp of None \<Rightarrow> getattr_default (pin_diameter (pins ! b)) | Some v \<Rightarrow> Num v)
            \<and> pin_number (pins' ! e) = (case kw_number kwp of None \<Rightarrow> pin_number (pins ! b) | Some v \<Rightarrow> v)
            \<and> pin_name (pins' ! e) = (case kw_name kwp of None \<Rightarrow> pin_name (pins ! b) | Some v \<Rightarrow> v)
            \<and> pin_round (pins' ! e) = (case kw_round kwp of None \<Rightarrow> pin_round (pins ! b) | Some v \<Rightarrow> v)
            \<and> (\<forall>upd. mutate pins' b upd ! e = pins' ! e)
            \<and> (\<forall>upd. mutate pins' e upd ! b = pins' ! b))"
proof (rule conjI)
  from Pad_init_plain_keys [OF assms(3-6), of "pads ! a"] obtain p where
    p: "Pad_init (Some (pads ! a)) kw = Inr p"
    and attrs: "pad_left p = Some (case kw_left kw of None \<Rightarrow> getattr_default (pad_left (pads ! a)) | Some v \<Rightarrow> Num v)"
      "pad_width p = Some (case kw_width kw of None \<Rightarrow> getattr_default (pad_width (pads ! a)) | Some v \<Rightarrow> Num v)"
      "pad_top p = Some (case kw_top kw of None \<Rightarrow> getattr_default (pad_top (pads ! a)) | Some v \<Rightarrow> Num v)"
      "pad_height p = Some (case kw_height kw of None \<Rightarrow> getattr_default (pad_height (pads ! a)) | Some v \<Rightarrow> Num v)"
      "pad_number p = (case kw_number kw of None \<Rightarrow> pad_number (pads ! a) | Some v \<Rightarrow> v)"
      "pad_name p = (case kw_name kw of None \<Rightarrow> pad_name (pads ! a) | Some v \<Rightarrow> v)"
      "pad_round p = (case kw_round kw of None \<Rightarrow> pad_round (pads ! a) | Some v \<Rightarrow> v)"
    by blast
  let ?d = "length pads" and ?pads' = "pads @ [p]"
  have new: "Pad_new pads (Some a) kw = Inr (?d, ?pads')"
    by (simp add: Pad_new_def p)
  have d: "?d \<noteq> a" "?d < length ?pads'" "?pads' ! a = pads ! a" "?pads' ! ?d = p"
    using assms(1) by (simp_all add: nth_append)
  have frame: "mutate ?pads' a upd ! ?d = ?pads' ! ?d" "mutate ?pads' ?d upd ! a = ?pads' ! a" for upd
    using d(1) by (simp_all add: mutate_other)
  show "\<exists>d pads'. Pad_new pads (Some a) kw = Inr (d, pads')
            \<and> d \<noteq> a \<and> d < length pads' \<and> pads' ! a = pads ! a
            \<and> pad_left (pads' ! d) = Some (case kw_left kw of None \<Rightarrow> getattr_default (pad_left (pads ! a)) | Some v \<Rightarrow> Num v)
            \<and> pad_width (pads' ! d) = Some (case kw_width kw of None \<Rightarrow> getattr_default (pad_width (pads ! a)) | Some v \<Rightarrow> Num v)
            \<and> pad_top (pads' ! d) = Some (case kw_top kw of None \<Rightarrow> getattr_default (pad_top (pads ! a)) | Some v \<Rightarrow> Num v)
            \<and> pad_height (pads' ! d) = Some (case kw_height kw of None \<Rightarrow> getattr_default (pad_height (pads ! a)) | Some v \<Rightarrow> Num v)
            \<and> pad_number (pads' ! d) = (case kw_number kw of None \<Rightarrow> pad_number (pads ! a) | Some v \<Rightarrow> v)
            \<and> pad_name (pads' ! d) = (case kw_name kw of None \<Rightarrow> pad_name (pads ! a) | Some v \<Rightarrow> v)
            \<and> pad_round (pads' ! d) = (case kw_round kw of None \<Rightarrow> pad_round (pads ! a) | Some v \<Rightarrow> v)
            \<and> (\<forall>upd. mutate pads' a upd ! d = pads' ! d)
            \<and> (\<forall>upd. mutate pads' d upd ! a = pads' ! a)"
    apply (rule exI [of _ ?d], rule exI [of _ ?pads'])
    using new d(1-3) attrs frame unfolding d(4)
    apply (intro conjI allI)
    apply assumption+
    done
next
  let ?q = "Pin_init (Some (pins ! b)) kwp"
  let ?e = "length pins" and ?pins' = "pins @ [?q]"
  have new: "Pin_new pins (Some b) kwp = (?e, ?pins')"
    by (simp add: Pin_new_def)
  have e: "?e \<noteq> b" "?e < length ?pins'" "?pins' ! b = pins ! b" "?pins' ! ?e = ?q"
    using assms(2) by (simp_all add: nth_append)
  have frame: "mutate ?pins' b upd ! ?e = ?pins' ! ?e" "mutate ?pins' ?e upd ! b = ?pins' ! b" for upd
    using e(1) by (simp_all add: mutate_other)
  note attrs = Pin_init_from_base [of "pins ! b" kwp]
  show "\<exists>e pins'. Pin_new pins (Some b) kwp = (e, pins')
            \<and> e \<noteq> b \<and> e < length pins' \<and> pins' ! b = pins ! b
            \<and> pin_x (pins' ! e) = Some (case kw_x kwp of None \<Rightarrow> getattr_default (pin_x (pins ! b)) | Some v \<Rightarrow> Num v)
            \<and> pin_y (pins' ! e) = Some (case kw_y kwp of None \<Rightarrow> getattr_default (pin_y (pins ! b)) | Some v \<Rightarrow> Num v)
            \<and> pin_hole (pins' ! e) = Some (case kw_hole kwp of None \<Rightarrow> getattr_default (pin_hole (pins ! b)) | Some v \<Rightarrow> Num v)
            \<and> pin_diameter (pins' ! e) = Some (case kw_diameter kwp of None \<Rightarrow> getattr_default (pin_diameter (pins ! b)) | Some v \<Rightarrow> Num v)
            \<and> pin_number (pins' ! e) = (case kw_number kwp of None \<Rightarrow> pin_number (pins ! b) | Some v \<Rightarrow> v)
            \<and> pin_name (pins' ! e) = (case kw_name kwp of None \<Rightarrow> pin_name (pins ! b) | Some v \<Rightarrow> v)
            \<and> pin_round (pins' ! e) = (case kw_round kwp of None \<Rightarrow> pin_round (pins ! b) | Some v \<Rightarrow> v)
            \<and> (\<forall>upd. mutate pins' b upd ! e = pins' ! e)
            \<and> (\<forall>upd. mutate pins' e upd ! b = pins' ! b)"
    apply (rule exI [of _ ?e], rule exI [of _ ?pins'])
    using new e(1-3) attrs frame unfolding e(4)
    apply (intro conjI allI)
    apply (assumption | elim conjE)+
    done
qed


theorem base_is_copied_once_witness:
  "(\<exists>d pads'. Pad_new [plain_pad 0 2 0 2] (Some 0) (no_kwargs\<lparr>kw_left := Some 7\<rparr>) = Inr (d, pads')
       \<and> d \<noteq> 0 \<and> d < length pads' \<and> pads' ! 0 = plain_pad 0 2 0 2
       \<and> pad_left (pads' ! d) = Some (Num 7) \<and> pad_width (pads' ! d) = Some (Num 2)
       \<and> pad_top (pads' ! d) = Some (Num 0) \<and> pad_height (pads' ! d) = Some (Num 2)
       \<and> pad_number (pads' ! d) = IdStr '''' \<and> pad_name (pads' ! d) = '''' \<and> \<not> pad_round (pads' ! d)
       \<and> (\<forall>upd. mutate pads' 0 upd ! d = pads' ! d)
       \<and> (\<forall>upd. mutate pads' d upd ! 0 = pads' ! 0))
   \<and> (\<exists>e pins'. Pin_new [plain_pin 0 0 1 2 1] (Some 0) (no_kwargs\<lparr>kw_x := Some 3\<rparr>) = (e, pins')
       \<and> e \<noteq> 0 \<and> e < length pins' \<and> pins' ! 0 = plain_pin 0 0 1 2 1
       \<and> pin_x (pins' ! e) = Some (Num 3) \<and> pin_y (pins' ! e) = Some (Num 0)
       \<and> pin_hole (pins' ! e) = Some (Num 1) \<and> pin_diameter (pins' ! e) = Some (Num 2)
       \<and> pin_number (pins' ! e) = IdInt 1 \<and> pin_name (pins' ! e) = '''' \<and> pin_round (pins' ! e)
       \<and> (\<forall>upd. mutate pins' 0 upd ! e = pins' ! e)
       \<and> (\<forall>upd. mutate pins' e upd ! 0 = pins' ! 0))"
proof -
  have hyps: "0 < length [plain_pad 0 2 0 2]" "0 < length [plain_pin 0 0 1 2 1]"
    "kw_right (no_kwargs\<lparr>kw_left := Some 7\<rparr>) = None" "kw_x (no_kwargs\<lparr>kw_left := Some 7\<rparr>) = None"
    "kw_bottom (no_kwargs\<lparr>kw_left := Some 7\<rparr>) = None" "kw_y (no_kwargs\<lparr>kw_left := Some 7\<rparr>) = None"
    by (simp_all add: no_kwargs_def)
  from base_is_copied_once [OF hyps, of "no_kwargs\<lparr>kw_x := Some 3\<rparr>"]
  show ?thesis
    by (simp add: no_kwargs_def plain_pad_def plain_pin_def)
qed

theorem derived_key_override_counterexample:
  "Pad_new [plain_pad 0 2 0 2] (Some 0) (no_kwargs\<lparr>kw_x := Some 5\<rparr>)
     = Inr (1, [plain_pad 0 2 0 2, plain_pad 4 2 0 2])
   \<and> pad_left (plain_pad 4 2 0 2) \<noteq> pad_left (plain_pad 0 2 0 2)"
  by (simp add: Pad_new_def Pad_init_def Pad_apply_kwargs_def Pad_inherit_def Pad_blank_def
      Pad_set_x_def no_kwargs_def plain_pad_def)

section \<open>Serialization relative to the mark\<close>

lemma mark_resolved_pad:
  assumes "pad_left p = Some (Num l)" "pad_width p = Some (Num w)"
    "pad_top p = Some (Num t)" "pad_height p = Some (Num h)"
  shows "mark fp (PadS p) = Inr (fp\<lparr>mark_x := Num (l + w / 2), mark_y := Num (t + h / 2)\<rparr>)"
  by (simp add: mark_def Pad_x_resolved [OF assms(1,2)] Pad_y_resolved [OF assms(3,4)])

lemma Footprint_str_one_pad:
  assumes "shapes fp = [PadS p]" "mark_x fp = Num mx" "mark_y fp = Num my"
    and "G ''_Footprint__mil_to_unit'' = Some (Func mil_to_unit)"
    and "Pad_pcb_repr G p (Num (- mx)) (Num (- my)) = Inr r"
  shows "Footprint_str G fp =
     Inr (Element (description fp) (fp_name fp) (py_round (mx * 100)) (py_round (my * 100))
            (py_round (text_x fp * 100)) (py_round (text_y fp * 100))
            (text_direction fp) (text_scale fp) [[r]])"
proof -
  have call: "call_global G ''Footprint'' ''__mil_to_unit'' (Inr (Num v)) = Inr (py_round (v * 100))" for v
    using assms(4) by (simp add: call_helper_Num mangle_Footprint)
  show ?thesis
    by (simp add: Footprint_str_def assms(1,2,3,5) call)
qed

text \<open>
  C2, as the code has it. For a footprint whose only shape is a pad with numeric
  \<^verbatim>\<open>left, width, top, height\<close>, \<^verbatim>\<open>mark(pad)\<close> sets the mark to the pad's centre and every
  shape is translated by \<open>(- mark_x, - mark_y)\<close>. In a namespace where the conversion helper
  resolves, the first two fields of the Pad record are the first endpoint of the pad's
  segment relative to the centre: \<open>(round (100 (height - width) / 2), 0)\<close> on the horizontal
  branch and \<open>(0, round (100 (width - height) / 2))\<close> on the vertical one. They are \<open>(0, 0)\<close>
  when \<^verbatim>\<open>width = height\<close>.
\<close>

theorem marked_pad_record:
  assumes "shapes fp = [PadS p]"
    and "pad_left p = Some (Num l)" "pad_width p = Some (Num w)"
    "pad_top p = Some (Num t)" "pad_height p = Some (Num h)"
    and "G ''_Pad__mil_to_unit'' = Some (Func mil_to_unit)"
    and "G ''_Footprint__mil_to_unit'' = Some (Func mil_to_unit)"
  shows "\<exists>fp' h1 h2 h3 h4 f1 f2 f3 f4 f5 f6 f7.
           mark fp (PadS p) = Inr fp'
         \<and> mark_x fp' = Num (l + w / 2) \<and> mark_y fp' = Num (t + h / 2)
         \<and> Footprint_str G fp' =
             Inr (Element (description fp) (fp_name fp) h1 h2 h3 h4 (text_direction fp) (text_scale fp)
                    [[PadRec f1 f2 f3 f4 f5 f6 f7 (pad_name p) (pad_number p)
                        (if pad_round p then 0 else 0x100)]])
         \<and> (h < w \<longrightarrow> f1 = py_round ((h - w) / 2 * 100) \<and> f2 = 0)
         \<and> (\<not> h < w \<longrightarrow> f1 = 0 \<and> f2 = py_round ((w - h) / 2 * 100))
         \<and> (w = h \<longrightarrow> f1 = 0 \<and> f2 = 0)"
proof -
  let ?mx = "l + w / 2" and ?my = "t + h / 2"
  let ?fp' = "fp\<lparr>mark_x := Num ?mx, mark_y := Num ?my\<rparr>"
  let ?f1 = "if h < w then py_round ((h - w) / 2 * 100) else 0"
  let ?f2 = "if h < w then 0 else py_round ((w - h) / 2 * 100)"
  have m: "mark fp (PadS p) = Inr ?fp'"
    using assms(2-5) by (rule mark_resolved_pad)
  have a1: "(l + h / 2 + - ?mx) * 100 = (h - w) / 2 * 100"
    and a2: "(t + h / 2 + - ?my) * 100 = 0"
    and a3: "(l + w / 2 + - ?mx) * 100 = 0"
    and a4: "(t + w / 2 + - ?my) * 100 = (w - h) / 2 * 100"
    by (simp_all add: field_simps)
  have "\<exists>f3 f4 f5 f6 f7. Pad_pcb_repr G p (Num (- ?mx)) (Num (- ?my)) =
          Inr (PadRec ?f1 ?f2 f3 f4 f5 f6 f7 (pad_name p) (pad_number p) (if pad_round p then 0 else 0x100))"
    using Pad_pcb_repr_resolved [of p l w t h G "- ?mx" "- ?my"] assms(2-6)
    by (simp only: a1 a2 a3 a4 py_round_0 if_distrib [of Inr] split: if_splits) auto
  then obtain f3 f4 f5 f6 f7 where
    r: "Pad_pcb_repr G p (Num (- ?mx)) (Num (- ?my)) =
          Inr (PadRec ?f1 ?f2 f3 f4 f5 f6 f7 (pad_name p) (pad_number p) (if pad_round p then 0 else 0x100))"
    by blast
  have s: "Footprint_str G ?fp' =
     Inr (Element (description fp) (fp_name fp) (py_round (?mx * 100)) (py_round (?my * 100))
            (py_round (text_x fp * 100)) (py_round (text_y fp * 100))
            (text_direction fp) (text_scale fp)
            [[PadRec ?f1 ?f2 f3 f4 f5 f6 f7 (pad_name p) (pad_number p) (if pad_round p then 0 else 0x100)]])"
    using Footprint_str_one_pad [of ?fp' p ?mx ?my G, OF _ _ _ assms(7) r] assms(1) by simp
  have tie: "w = h \<longrightarrow> ?f1 = 0 \<and> ?f2 = 0"
    by (simp add: py_round_0)
  show ?thesis
    apply (rule exI [of _ ?fp'])
    apply (rule exI [of _ "py_round (?mx * 100)"], rule exI [of _ "py_round (?my * 100)"])
    apply (rule exI [of _ "py_round (text_x fp * 100)"], rule exI [of _ "py_round (text_y fp * 100)"])
    apply (rule exI [of _ ?f1], rule exI [of _ ?f2])
    apply (rule exI [of _ f3], rule exI [of _ f4], rule exI [of _ f5], rule exI [of _ f6], rule exI [of _ f7])
    using m s tie by simp
qed


theorem marked_pad_record_witness:
  "\<exists>fp' h1 h2 h3 h4 f1 f2 f3 f4 f5 f6 f7.
       mark ((Footprint_init ''F'' None)\<lparr>shapes := [PadS (plain_pad 0 2 0 2)]\<rparr>) (PadS (plain_pad 0 2 0 2)) = Inr fp'
     \<and> mark_x fp' = Num 1 \<and> mark_y fp' = Num 1
     \<and> Footprint_str rebound_globals fp' =
          Inr (Element '''' ''F'' h1 h2 h3 h4 0 100 [[PadRec f1 f2 f3 f4 f5 f6 f7 '''' (IdStr '''') 0x100]])
     \<and> f1 = 0 \<and> f2 = 0"
proof -
  let ?F = "(Footprint_init ''F'' None)\<lparr>shapes := [PadS (plain_pad 0 2 0 2)]\<rparr>"
  have hyps: "shapes ?F = [PadS (plain_pad 0 2 0 2)]"
    "pad_left (plain_pad 0 2 0 2) = Some (Num 0)" "pad_width (plain_pad 0 2 0 2) = Some (Num 2)"
    "pad_top (plain_pad 0 2 0 2) = Some (Num 0)" "pad_height (plain_pad 0 2 0 2) = Some (Num 2)"
    by (simp_all add: plain_pad_def)
  from marked_pad_record [of ?F "plain_pad 0 2 0 2" 0 2 0 2 rebound_globals, OF hyps rebound_Pad rebound_Footprint]
  obtain fp' h1 h2 h3 h4 f1 f2 f3 f4 f5 f6 f7 where
    "mark ?F (PadS (plain_pad 0 2 0 2)) = Inr fp'"
    "mark_x fp' = Num (0 + 2 / 2)" "mark_y fp' = Num (0 + 2 / 2)"
    "Footprint_str rebound_globals fp' =
       Inr (Element (description ?F) (fp_name ?F) h1 h2 h3 h4 (text_direction ?F) (text_scale ?F)
              [[PadRec f1 f2 f3 f4 f5 f6 f7 (pad_name (plain_pad 0 2 0 2)) (pad_number (plain_pad 0 2 0 2))
                  (if pad_round (plain_pad 0 2 0 2) then 0 else 0x100)]])"
    "(2::real) = 2 \<longrightarrow> f1 = 0 \<and> f2 = 0"
    by blast
  then show ?thesis
    by (simp add: plain_pad_def Footprint_init_def)
qed

text \<open>The footprint of the next two statements, built through the interface.\<close>

lemma marked_wide_pad_built:
  "add_pad (Footprint_init ''F'' None) None
     (no_kwargs\<lparr>kw_left := Some 0, kw_width := Some 2, kw_top := Some 0, kw_height := Some 1\<rparr>)
   = Inr ((plain_pad 0 2 0 1)\<lparr>pad_number := IdInt 1\<rparr>,
          (Footprint_init ''F'' None)\<lparr>shapes := [PadS ((plain_pad 0 2 0 1)\<lparr>pad_number := IdInt 1\<rparr>)],
                                      pinpadcounter := 2\<rparr>)
   \<and> mark ((Footprint_init ''F'' None)\<lparr>shapes := [PadS ((plain_pad 0 2 0 1)\<lparr>pad_number := IdInt 1\<rparr>)],
                                        pinpadcounter := 2\<rparr>)
        (PadS ((plain_pad 0 2 0 1)\<lparr>pad_number := IdInt 1\<rparr>))
   = Inr ((Footprint_init ''F'' None)\<lparr>shapes := [PadS ((plain_pad 0 2 0 1)\<lparr>pad_number := IdInt 1\<rparr>)],
                                       pinpadcounter := 2, mark_x := Num 1, mark_y := Num (1 / 2)\<rparr>)"
  by (simp add: add_pad_def number_for_def Pad_init_def Pad_apply_kwargs_def Pad_blank_def
      no_kwargs_def Footprint_init_def plain_pad_def mark_def Pad_x_def Pad_y_def Pad_right_def
      Pad_bottom_def between_def)

lemma wide_pad_record:
  "Pad_pcb_repr rebound_globals ((plain_pad 0 2 0 1)\<lparr>pad_number := IdInt 1\<rparr>) (Num (- 1)) (Num (- (1 / 2)))
     = Inr (PadRec (- 50) 0 50 0 100 100 200 '''' (IdInt 1) 0x100)"
proof -
  have r: "py_round (- 50) = - 50" "py_round 50 = 50" "py_round 100 = 100" "py_round 200 = 200"
    using py_round_of_int [of "- 50"] py_round_of_int [of 50] py_round_of_int [of 100]
      py_round_of_int [of 200] by simp_all
  show ?thesis
    using Pad_pcb_repr_resolved [of "(plain_pad 0 2 0 1)\<lparr>pad_number := IdInt 1\<rparr>" 0 2 0 1
        rebound_globals "- 1" "- (1 / 2)"]
    by (simp add: plain_pad_def rebound_Pad r py_round_0)
qed

theorem marked_pad_origin_counterexample:
  "Footprint_str footprint_globals
     ((Footprint_init ''F'' None)\<lparr>shapes := [PadS ((plain_pad 0 2 0 1)\<lparr>pad_number := IdInt 1\<rparr>)],
                                  pinpadcounter := 2, mark_x := Num 1, mark_y := Num (1 / 2)\<rparr>)
     = Inl NameError
   \<and> Footprint_str rebound_globals
     ((Footprint_init ''F'' None)\<lparr>shapes := [PadS ((plain_pad 0 2 0 1)\<lparr>pad_number := IdInt 1\<rparr>)],
                                  pinpadcounter := 2, mark_x := Num 1, mark_y := Num (1 / 2)\<rparr>)
     = Inr (Element '''' ''F'' 100 50 0 0 0 100
              [[PadRec (- 50) 0 50 0 100 100 200 '''' (IdInt 1) 0x100]])"
proof -
  let ?fp = "(Footprint_init ''F'' None)\<lparr>shapes := [PadS ((plain_pad 0 2 0 1)\<lparr>pad_number := IdInt 1\<rparr>)],
                                  pinpadcounter := 2, mark_x := Num 1, mark_y := Num (1 / 2)\<rparr>"
  have r: "py_round 50 = 50" "py_round 100 = 100"
    using py_round_of_int [of 50] py_round_of_int [of 100] by simp_all
  have "Footprint_str rebound_globals ?fp =
     Inr (Element (description ?fp) (fp_name ?fp) (py_round (1 * 100)) (py_round (1 / 2 * 100))
            (py_round (text_x ?fp * 100)) (py_round (text_y ?fp * 100))
            (text_direction ?fp) (text_scale ?fp)
            [[PadRec (- 50) 0 50 0 100 100 200 '''' (IdInt 1) 0x100]])"
    by (rule Footprint_str_one_pad [OF _ _ _ rebound_Footprint wide_pad_record]) simp_all
  then show ?thesis
    by (simp add: Footprint_str_NameError Footprint_init_def r py_round_0)
qed

end
